theory Spec2Isabelle
  imports Complex_Main
begin

section \<open>Glass mechanical watch: gear generator and mesh animation (script.js)\<close>

text \<open>
  A shallow embedding of \<^verbatim>\<open>src/script.js\<close>. JavaScript numbers are modelled as
  \<open>jsnum\<close>: a finite number is an exact real (the rounding of IEEE-754 double
  arithmetic is not modelled), and the three non-finite values \<open>Infinity\<close>,
  \<open>-Infinity\<close> and \<open>NaN\<close> are values of their own, so that a division by zero is
  visible in the model as it is in the program. Signed zeros are not distinguished.
  Where the source only ever computes with finite values and non-zero divisors
  (\<open>makeGearPath\<close>, \<open>getClockAngles\<close>) the model uses \<open>real\<close> directly.
  A double can differ from the exact real in its last place. A value rounded to
  two decimals can then differ in its last digit at a tie, or in the sign of a
  zero, and an iteration that converges in exact arithmetic stops changing once
  it is at rounding level. The statements about emitted coordinates and about
  convergence are therefore made within a tolerance, not digit by digit.
\<close>

subsection \<open>JavaScript numbers\<close>

datatype jsnum = Fin real | PosInf | NegInf | NaN

fun jneg :: "jsnum \<Rightarrow> jsnum" where
  "jneg (Fin a) = Fin (- a)"
| "jneg PosInf = NegInf"
| "jneg NegInf = PosInf"
| "jneg NaN = NaN"

fun jadd :: "jsnum \<Rightarrow> jsnum \<Rightarrow> jsnum" where
  "jadd NaN _ = NaN"
| "jadd _ NaN = NaN"
| "jadd (Fin a) (Fin b) = Fin (a + b)"
| "jadd PosInf NegInf = NaN"
| "jadd NegInf PosInf = NaN"
| "jadd PosInf _ = PosInf"
| "jadd NegInf _ = NegInf"
| "jadd (Fin a) PosInf = PosInf"
| "jadd (Fin a) NegInf = NegInf"

definition jsub :: "jsnum \<Rightarrow> jsnum \<Rightarrow> jsnum" where
  "jsub a b = jadd a (jneg b)"

text \<open>The sign of an infinite product or quotient; a zero factor gives \<open>NaN\<close>.\<close>

definition signed_inf :: "real \<Rightarrow> jsnum" where
  "signed_inf a = (if a = 0 then NaN else if 0 < a then PosInf else NegInf)"

fun jmul :: "jsnum \<Rightarrow> jsnum \<Rightarrow> jsnum" where
  "jmul NaN _ = NaN"
| "jmul _ NaN = NaN"
| "jmul (Fin a) (Fin b) = Fin (a * b)"
| "jmul (Fin a) PosInf = signed_inf a"
| "jmul (Fin a) NegInf = signed_inf (- a)"
| "jmul PosInf (Fin b) = signed_inf b"
| "jmul NegInf (Fin b) = signed_inf (- b)"
| "jmul PosInf PosInf = PosInf"
| "jmul PosInf NegInf = NegInf"
| "jmul NegInf PosInf = NegInf"
| "jmul NegInf NegInf = PosInf"

text \<open>
  Division: a finite number divided by (positive) zero is an infinity of the
  dividend's sign, and \<open>0 / 0\<close> is \<open>NaN\<close>.
\<close>

fun jdiv :: "jsnum \<Rightarrow> jsnum \<Rightarrow> jsnum" where
  "jdiv NaN _ = NaN"
| "jdiv _ NaN = NaN"
| "jdiv (Fin a) (Fin b) = (if b = 0 then signed_inf a else Fin (a / b))"
| "jdiv (Fin a) PosInf = Fin 0"
| "jdiv (Fin a) NegInf = Fin 0"
| "jdiv PosInf (Fin b) = (if 0 \<le> b then PosInf else NegInf)"
| "jdiv NegInf (Fin b) = (if 0 \<le> b then NegInf else PosInf)"
| "jdiv PosInf _ = NaN"
| "jdiv NegInf _ = NaN"

text \<open>\<open>x || d\<close> on numbers: \<open>0\<close> and \<open>NaN\<close> are falsy.\<close>

definition js_or :: "jsnum \<Rightarrow> jsnum \<Rightarrow> jsnum" where
  "js_or x d = (if x = Fin 0 \<or> x = NaN then d else x)"

definition is_finite :: "jsnum \<Rightarrow> bool" where
  "is_finite x = (case x of Fin _ \<Rightarrow> True | _ \<Rightarrow> False)"

subsection \<open>Procedural gear path (\<open>makeGearPath\<close>, lines 38--57)\<close>

text \<open>
  \<open>Number.prototype.toFixed(2)\<close>: the sign is split off, the magnitude is rounded to
  the nearest multiple of \<open>1/100\<close> (the larger one on a tie), and the result is the
  decimal string of that integer with a point before its last two digits. The
  string is represented by its sign and the integer \<open>n\<close> of hundredths. From
  \<open>10^21\<close> on, \<open>toFixed\<close> falls back to the plain number-to-string conversion.
\<close>

datatype fixed = Fixed bool nat | Plain real

definition toFixed2 :: "real \<Rightarrow> fixed" where
  "toFixed2 x =
     (let s = (x < 0); a = (if x < 0 then - x else x)
      in if 10 ^ 21 \<le> a then Plain x
         else Fixed s (nat \<lfloor>a * 100 + 1 / 2\<rfloor>))"

text \<open>The number that the string denotes.\<close>

fun fixed_val :: "fixed \<Rightarrow> real" where
  "fixed_val (Fixed s n) = (if s then - (real n / 100) else real n / 100)"
| "fixed_val (Plain x) = x"

text \<open>Lines 48--53: the radial value chosen from \<open>i % 4\<close>.\<close>

definition tooth_radius :: "real \<Rightarrow> real \<Rightarrow> nat \<Rightarrow> real" where
  "tooth_radius r toothDepth i =
     (let outer = r + toothDepth; inner = r; md = i mod 4
      in if md = 0 then inner + toothDepth * 0.45
         else if md = 1 then outer
         else if md = 2 then inner + toothDepth * 0.45
         else inner * 0.68)"

text \<open>
  Lines 45, 54, 55: the point \<open>(x, y)\<close> of step \<open>i\<close>, in exact arithmetic. (The
  program's \<open>Math.cos\<close> and \<open>Math.sin\<close> give doubles next to these values.)
\<close>

definition gear_point :: "nat \<Rightarrow> real \<Rightarrow> real \<Rightarrow> nat \<Rightarrow> real \<times> real" where
  "gear_point steps r toothDepth i =
     (let theta = (real i / real steps) * pi * 2;
          radius = tooth_radius r toothDepth i
      in (radius * cos theta, radius * sin theta))"

text \<open>Line 56: the entry \<open>`${x.toFixed(2)},${y.toFixed(2)}`\<close> pushed on \<open>d\<close>.\<close>

definition vertex_entry :: "real \<times> real \<Rightarrow> fixed \<times> fixed" where
  "vertex_entry p = (toFixed2 (fst p), toFixed2 (snd p))"

text \<open>The loop of lines 44--57, from counter \<open>i\<close> with the entries \<open>d\<close> pushed so far.\<close>

function gear_loop :: "nat \<Rightarrow> real \<Rightarrow> real \<Rightarrow> nat \<Rightarrow> (fixed \<times> fixed) list \<Rightarrow> (fixed \<times> fixed) list" where
  "gear_loop steps r toothDepth i d =
     (if i < steps
      then gear_loop steps r toothDepth (i + 1) (d @ [vertex_entry (gear_point steps r toothDepth i)])
      else d)"
  by pat_completeness auto
termination
  by (relation "measure (\<lambda>(steps, r, toothDepth, i, d). steps - i)") auto

declare gear_loop.simps [simp del]

text \<open>
  The path data: the list \<open>d\<close> after the loop. The attribute string
  \<open>M d[0] L d[1] L ... Z\<close> lists exactly these entries in order.
\<close>

definition gearPathData :: "nat \<Rightarrow> real \<Rightarrow> real \<Rightarrow> (fixed \<times> fixed) list" where
  "gearPathData teeth r toothDepth = gear_loop (teeth * 4) r toothDepth 0 []"

text \<open>The distance of a point from the gear's centre \<open>(0, 0)\<close>.\<close>

definition vertex_radius :: "real \<times> real \<Rightarrow> real" where
  "vertex_radius p = sqrt ((fst p)\<^sup>2 + (snd p)\<^sup>2)"

subsection \<open>Clock angles (\<open>getClockAngles\<close>, lines 112--121)\<close>

text \<open>A (valid) \<open>Date\<close>, read through its four accessors.\<close>

record jsdate =
  getHours :: nat
  getMinutes :: nat
  getSeconds :: nat
  getMilliseconds :: nat

record clock_angles =
  secondAngle :: real
  minuteAngle :: real
  hourAngle :: real

definition getClockAngles :: "jsdate \<Rightarrow> clock_angles" where
  "getClockAngles date =
     (let s = real (getSeconds date);
          m = real (getMinutes date);
          h = real (getHours date mod 12)
      in \<lparr> secondAngle = (s + (real (getMilliseconds date) / 1000)) * 6,
           minuteAngle = (m + s / 60 + real (getMilliseconds date) / 60000) * 6,
           hourAngle = (h + m / 60 + s / 3600) * 30 \<rparr>)"

subsection \<open>SVG elements and the page\<close>

text \<open>
  The value of a \<open>transform\<close> attribute: the three strings the script writes,
  \<open>translate(cx, cy)\<close>, \<open>translate(cx, cy) rotate(a)\<close> and \<open>rotate(a)\<close>.
\<close>

datatype transform = Translate real real | TranslateRotate real real jsnum | Rotate jsnum

text \<open>The children of a gear's group: the path (\<open>d\<close>, \<open>class\<close>) and the centre disk
  (\<open>cx\<close>, \<open>cy\<close>, \<open>r\<close>, \<open>fill\<close>).\<close>

datatype svg_node = PathNode "(fixed \<times> fixed) list" string | CircleNode real real real string

text \<open>
  A group element \<open><g>\<close> with the attributes the script uses. The attribute
  \<open>data-rot\<close> holds the string of a number; \<open>parseFloat\<close> reads that number back, so
  the model stores the number, and \<open>NaN\<close> stands for a string that is not numeric.
\<close>

record element =
  el_id :: "string option"
  el_transform :: "transform option"
  el_transformOrigin :: "(real \<times> real) option"
  el_data_rot :: "jsnum option"
  el_children :: "svg_node list"

text \<open>
  The object returned by \<open>makeGearPath\<close> (its \<open>path\<close> and \<open>center\<close> are the two
  children of the group, which are never changed afterwards), and the gear object
  of the train, which also carries the placement \<open>cx\<close>, \<open>cy\<close> stored by \<open>buildGears\<close>.
\<close>

record gear_shape =
  sh_group :: nat
  sh_teeth :: nat
  sh_r :: real
  sh_outer :: real

record gear =
  g_group :: nat
  g_teeth :: nat
  g_r :: real
  g_outer :: real
  g_cx :: real
  g_cy :: real

record train =
  gears :: "gear list"
  pinion :: gear

text \<open>
  The page and the script's variables. Elements live in a store and are referred
  to by their index, so that the container and the gear objects share them.
\<close>

record world =
  elements :: "element list"
  gearContainer :: "nat list"
  minuteGroup :: "transform option"
  hourGroup :: "transform option"
  running :: bool
  toggleBtn :: string
  gearsObj :: "train option"

datatype error = TypeError

definition createElement :: "element \<Rightarrow> world \<Rightarrow> nat \<times> world" where
  "createElement e w = (length (elements w), w\<lparr>elements := elements w @ [e]\<rparr>)"

definition update_element :: "nat \<Rightarrow> (element \<Rightarrow> element) \<Rightarrow> world \<Rightarrow> world" where
  "update_element a f w = w\<lparr>elements := (elements w)[a := f (elements w ! a)]\<rparr>"

definition appendChild :: "nat \<Rightarrow> world \<Rightarrow> world" where
  "appendChild a w = w\<lparr>gearContainer := gearContainer w @ [a]\<rparr>"

text \<open>The click handler of the button (lines 16--19).\<close>

definition toggle :: "world \<Rightarrow> world" where
  "toggle w =
     (let run = \<not> running w
      in w\<lparr>running := run, toggleBtn := (if run then ''Pause'' else ''Play'')\<rparr>)"

subsection \<open>\<open>makeGearPath\<close> (lines 38--67)\<close>

definition makeGearPath :: "nat \<Rightarrow> real \<Rightarrow> real \<Rightarrow> real \<Rightarrow> world \<Rightarrow> gear_shape \<times> world" where
  "makeGearPath teeth r toothDepth centerRadius w =
     (let outer = r + toothDepth;
          path = PathNode (gearPathData teeth r toothDepth) ''gear-path'';
          center = CircleNode 0 0 centerRadius ''rgba(255,255,255,0.02)'';
          (grp, w1) = createElement
             \<lparr>el_id = None, el_transform = None, el_transformOrigin = None,
              el_data_rot = None, el_children = [path, center]\<rparr> w
      in (\<lparr>sh_group = grp, sh_teeth = teeth, sh_r = r, sh_outer = outer\<rparr>, w1))"

subsection \<open>\<open>buildGears\<close> (lines 74--107)\<close>

record config_entry =
  c_id :: string
  c_teeth :: nat
  c_r :: real
  c_toothDepth :: real
  c_cx :: real
  c_cy :: real

definition config :: "config_entry list" where
  "config =
     [\<lparr>c_id = ''g1'', c_teeth = 44, c_r = 64, c_toothDepth = 9, c_cx = -28, c_cy = 30\<rparr>,
      \<lparr>c_id = ''g2'', c_teeth = 22, c_r = 34, c_toothDepth = 7, c_cx = 64, c_cy = 20\<rparr>,
      \<lparr>c_id = ''g3'', c_teeth = 14, c_r = 24, c_toothDepth = 6, c_cx = 38, c_cy = -82\<rparr>]"

text \<open>\<open>Math.round\<close>: the nearest integer, the larger one on a tie.\<close>

definition Math_round :: "real \<Rightarrow> real" where
  "Math_round x = real_of_int \<lfloor>x + 1 / 2\<rfloor>"

text \<open>The callback of \<open>config.map\<close> (lines 85--95).\<close>

definition place_gear :: "config_entry \<Rightarrow> world \<Rightarrow> gear \<times> world" where
  "place_gear c w =
     (let (g, w1) = makeGearPath (c_teeth c) (c_r c) (c_toothDepth c)
                      (max 8 (Math_round (c_r c * 0.28))) w;
          w2 = update_element (sh_group g) (\<lambda>e. e\<lparr>el_id := Some (c_id c)\<rparr>) w1;
          w3 = update_element (sh_group g)
                 (\<lambda>e. e\<lparr>el_transform := Some (Translate (c_cx c) (c_cy c))\<rparr>) w2;
          w4 = update_element (sh_group g)
                 (\<lambda>e. e\<lparr>el_transformOrigin := Some (c_cx c, c_cy c)\<rparr>) w3;
          w5 = appendChild (sh_group g) w4
      in (\<lparr>g_group = sh_group g, g_teeth = sh_teeth g, g_r = sh_r g, g_outer = sh_outer g,
           g_cx = c_cx c, g_cy = c_cy c\<rparr>, w5))"

text \<open>\<open>config.map\<close>, with the page threaded through the calls in order.\<close>

fun map_config :: "config_entry list \<Rightarrow> world \<Rightarrow> gear list \<times> world" where
  "map_config [] w = ([], w)"
| "map_config (c # cs) w =
     (let (g, w1) = place_gear c w;
          (gs, w2) = map_config cs w1
      in (g # gs, w2))"

text \<open>
  The body of \<open>buildGears\<close> for a given configuration table; \<open>buildGears\<close> itself is
  this body at the table written in the source.
\<close>

definition buildGears_from :: "config_entry list \<Rightarrow> world \<Rightarrow> train \<times> world" where
  "buildGears_from cfg w =
     (let w0 = w\<lparr>gearContainer := []\<rparr>;
          (gearObjs, w1) = map_config cfg w0;
          (p, w2) = makeGearPath 10 8 4 5 w1;
          w3 = update_element (sh_group p) (\<lambda>e. e\<lparr>el_id := Some ''pinion''\<rparr>) w2;
          w4 = update_element (sh_group p) (\<lambda>e. e\<lparr>el_transform := Some (Translate 0 0)\<rparr>) w3;
          w5 = appendChild (sh_group p) w4
      in (\<lparr>gears = gearObjs,
            pinion = \<lparr>g_group = sh_group p, g_teeth = sh_teeth p, g_r = sh_r p,
                      g_outer = sh_outer p, g_cx = 0, g_cy = 0\<rparr>\<rparr>, w5))"

definition buildGears :: "world \<Rightarrow> train \<times> world" where
  "buildGears w = buildGears_from config w"

text \<open>
  \<open>start\<close> (lines 132--136): build the train and keep it in \<open>state.gearsObj\<close>. The
  time stamp \<open>state.lastT\<close> is never read and is left out; the frames that
  \<open>requestAnimationFrame\<close> schedules are the calls of \<open>loop\<close> below.
\<close>

definition start_from :: "config_entry list \<Rightarrow> world \<Rightarrow> world" where
  "start_from cfg w = (let (tr, w1) = buildGears_from cfg w in w1\<lparr>gearsObj := Some tr\<rparr>)"

definition start :: "world \<Rightarrow> world" where
  "start w = (let (tr, w1) = buildGears w in w1\<lparr>gearsObj := Some tr\<rparr>)"

subsection \<open>The frame step (\<open>loop\<close>, lines 146--182)\<close>

text \<open>Line 171: the rotation a gear should have for the pinion's rotation.\<close>

definition mesh_target :: "jsnum \<Rightarrow> jsnum \<Rightarrow> nat \<Rightarrow> jsnum" where
  "mesh_target pinionTurn pinionTeeth gearTeeth =
     jmul (jneg pinionTurn) (jdiv pinionTeeth (Fin (real gearTeeth)))"

text \<open>
  Lines 173--174: \<open>getAttribute("data-rot") || 0\<close>, then \<open>parseFloat(...) || 0\<close>.
  An absent attribute reads as \<open>0\<close>, and so does a stored \<open>NaN\<close>.
\<close>

definition stored_rotation :: "element \<Rightarrow> jsnum" where
  "stored_rotation e =
     (let currentTransform = (case el_data_rot e of None \<Rightarrow> Fin 0 | Some v \<Rightarrow> v)
      in js_or currentTransform (Fin 0))"

text \<open>
  Line 175: the rotation moves 14 percent of the way to the target. (In the
  program's doubles the sum stops changing once the remaining distance is at
  rounding level.)
\<close>

definition smooth :: "jsnum \<Rightarrow> jsnum \<Rightarrow> jsnum" where
  "smooth cur target = jadd cur (jmul (jsub target cur) (Fin 0.14))"

text \<open>The callback of \<open>gears.forEach\<close> (lines 169--178).\<close>

definition rotate_gear :: "jsnum \<Rightarrow> jsnum \<Rightarrow> gear \<Rightarrow> world \<Rightarrow> world" where
  "rotate_gear pinionTurn pinionTeeth g w =
     (let target = mesh_target pinionTurn pinionTeeth (g_teeth g);
          cur = stored_rotation (elements w ! g_group g);
          next = smooth cur target
      in update_element (g_group g)
           (\<lambda>e. e\<lparr>el_transform := Some (TranslateRotate (g_cx g) (g_cy g) next),
                  el_data_rot := Some next\<rparr>) w)"

fun forEach_gear :: "jsnum \<Rightarrow> jsnum \<Rightarrow> gear list \<Rightarrow> world \<Rightarrow> world" where
  "forEach_gear pinionTurn pinionTeeth [] w = w"
| "forEach_gear pinionTurn pinionTeeth (g # gs) w =
     forEach_gear pinionTurn pinionTeeth gs (rotate_gear pinionTurn pinionTeeth g w)"

text \<open>
  One frame at the time \<open>now\<close>. Reading the train of a page that was never started
  (\<open>state.gearsObj\<close> is \<open>null\<close>) throws.
\<close>

definition loop :: "jsdate \<Rightarrow> world \<Rightarrow> error + world" where
  "loop now w =
     (let angles = getClockAngles now;
          w1 = w\<lparr>minuteGroup := Some (Rotate (Fin (minuteAngle angles))),
                 hourGroup := Some (Rotate (Fin (hourAngle angles)))\<rparr>
      in if running w1
         then (case gearsObj w1 of
                 None \<Rightarrow> Inl TypeError
               | Some tr \<Rightarrow>
                   (let driverDeg = Fin (minuteAngle angles);
                        p = pinion tr;
                        pinionTeeth = js_or (Fin (real (g_teeth p))) (Fin 10);
                        pinionTurn = driverDeg;
                        w2 = update_element (g_group p)
                               (\<lambda>e. e\<lparr>el_transform :=
                                      Some (TranslateRotate (g_cx p) (g_cy p) pinionTurn)\<rparr>) w1
                    in Inr (forEach_gear pinionTurn pinionTeeth (gears tr) w2)))
         else Inr w1)"

text \<open>A run of frames, one per time stamp.\<close>

fun frames :: "jsdate list \<Rightarrow> world \<Rightarrow> error + world" where
  "frames [] w = Inr w"
| "frames (now # rest) w = (case loop now w of Inl e \<Rightarrow> Inl e | Inr w1 \<Rightarrow> frames rest w1)"

text \<open>What a gear's group stores as its rotation after a run of frames.\<close>

definition rotation_after :: "jsdate list \<Rightarrow> world \<Rightarrow> nat \<Rightarrow> error + jsnum option" where
  "rotation_after ds w a =
     (case frames ds w of Inl e \<Rightarrow> Inl e | Inr w1 \<Rightarrow> Inr (el_data_rot (elements w1 ! a)))"

text \<open>A page whose gear container is still empty, before \<open>start\<close> has run.\<close>

definition page0 :: world where
  "page0 = \<lparr>elements = [], gearContainer = [], minuteGroup = None, hourGroup = None,
            running = True, toggleBtn = ''Pause'', gearsObj = None\<rparr>"

text \<open>
  The gear objects of the running train refer to distinct elements of the store.
\<close>

definition train_ok :: "train \<Rightarrow> world \<Rightarrow> bool" where
  "train_ok tr w \<longleftrightarrow>
     distinct (map g_group (pinion tr # gears tr)) \<and>
     list_all (\<lambda>g. g_group g < length (elements w)) (pinion tr # gears tr)"

subsection \<open>Values named in the statements\<close>

text \<open>
  The group element that \<open>buildGears\<close> leaves in the store for a row of the
  configuration table, and the one for the pinion.
\<close>

definition gear_element :: "config_entry \<Rightarrow> element" where
  "gear_element c =
     \<lparr>el_id = Some (c_id c), el_transform = Some (Translate (c_cx c) (c_cy c)),
      el_transformOrigin = Some (c_cx c, c_cy c), el_data_rot = None,
      el_children = [PathNode (gearPathData (c_teeth c) (c_r c) (c_toothDepth c)) ''gear-path'',
                     CircleNode 0 0 (max 8 (Math_round (c_r c * 0.28))) ''rgba(255,255,255,0.02)'']\<rparr>"

definition pinion_element :: element where
  "pinion_element =
     \<lparr>el_id = Some ''pinion'', el_transform = Some (Translate 0 0),
      el_transformOrigin = None, el_data_rot = None,
      el_children = [PathNode (gearPathData 10 8 4) ''gear-path'',
                     CircleNode 0 0 5 ''rgba(255,255,255,0.02)'']\<rparr>"

text \<open>
  The gear object made from a row of the table, with its group at address \<open>a\<close>,
  and the train that \<open>buildGears\<close> returns when the store holds \<open>n\<close> elements.
\<close>

definition placed :: "config_entry \<Rightarrow> nat \<Rightarrow> gear" where
  "placed c a =
     \<lparr>g_group = a, g_teeth = c_teeth c, g_r = c_r c, g_outer = c_r c + c_toothDepth c,
      g_cx = c_cx c, g_cy = c_cy c\<rparr>"

definition built_train :: "nat \<Rightarrow> train" where
  "built_train n =
     \<lparr>gears = [placed (config ! 0) n, placed (config ! 1) (n + 1), placed (config ! 2) (n + 2)],
      pinion = \<lparr>g_group = n + 3, g_teeth = 10, g_r = 8, g_outer = 12, g_cx = 0, g_cy = 0\<rparr>\<rparr>"

text \<open>
  The placement and the tooth count of every gear of a train, the pinion last.
\<close>

definition placements :: "train \<Rightarrow> (real \<times> real \<times> nat) list" where
  "placements tr = map (\<lambda>g. (g_cx g, g_cy g, g_teeth g)) (gears tr @ [pinion tr])"

text \<open>
  The wall-clock time 10:15:30.000.
\<close>

definition time_10_15_30 :: jsdate where
  "time_10_15_30 = \<lparr>getHours = 10, getMinutes = 15, getSeconds = 30, getMilliseconds = 0\<rparr>"

text \<open>
  Every visible gear's group stores either no rotation or a finite one.
\<close>

definition finite_rotations :: "train \<Rightarrow> world \<Rightarrow> bool" where
  "finite_rotations tr w \<longleftrightarrow>
     list_all (\<lambda>g. case el_data_rot (elements w ! g_group g) of
                     None \<Rightarrow> True | Some v \<Rightarrow> is_finite v) (gears tr)"

text \<open>
  A configuration table whose only row has a tooth count of zero.
\<close>

definition zero_config :: "config_entry list" where
  "zero_config = [\<lparr>c_id = ''g1'', c_teeth = 0, c_r = 64, c_toothDepth = 9, c_cx = -28, c_cy = 30\<rparr>]"

text \<open>
  The distance \<open>|currentRotation - target|\<close> of the gear whose group is at address
  \<open>a\<close>, after a run of frames; \<open>None\<close> when the run throws or the rotation read back
  is not finite.
\<close>

definition distance_after :: "jsdate list \<Rightarrow> world \<Rightarrow> nat \<Rightarrow> real \<Rightarrow> real option" where
  "distance_after ds w a target =
     (case frames ds w of
        Inl e \<Rightarrow> None
      | Inr w1 \<Rightarrow> (case stored_rotation (elements w1 ! a) of
                      Fin x \<Rightarrow> Some \<bar>x - target\<bar>
                    | _ \<Rightarrow> None))"


section \<open>Properties\<close>

subsection \<open>The loop of the gear path\<close>





lemma vertex_radius_gear_point:
  "0 \<le> tooth_radius r toothDepth i \<Longrightarrow>
   vertex_radius (gear_point steps r toothDepth i) = tooth_radius r toothDepth i"
proof -
  assume nn: "0 \<le> tooth_radius r toothDepth i"
  define \<rho> where "\<rho> = tooth_radius r toothDepth i"
  define \<theta> where "\<theta> = (real i / real steps) * pi * 2"
  have "(\<rho> * cos \<theta>)\<^sup>2 + (\<rho> * sin \<theta>)\<^sup>2 = \<rho>\<^sup>2 * ((cos \<theta>)\<^sup>2 + (sin \<theta>)\<^sup>2)"
    by (simp only: power_mult_distrib distrib_left)
  also have "\<dots> = \<rho>\<^sup>2"
    by (simp only: sin_cos_squared_add2 mult_1_right)
  finally have "sqrt ((\<rho> * cos \<theta>)\<^sup>2 + (\<rho> * sin \<theta>)\<^sup>2) = \<rho>"
    using nn by (simp add: \<rho>_def)
  then show ?thesis
    by (simp add: vertex_radius_def gear_point_def Let_def \<rho>_def \<theta>_def)
qed

lemma tooth_radius_bounds:
  assumes "0 < r" "0 \<le> toothDepth"
  shows "0 \<le> tooth_radius r toothDepth i" and "tooth_radius r toothDepth i \<le> r + toothDepth"
proof -
  have "toothDepth * 0.45 \<le> toothDepth" "0 \<le> toothDepth * 0.45" "r * 0.68 \<le> r"
    using assms by simp_all
  then show "0 \<le> tooth_radius r toothDepth i" "tooth_radius r toothDepth i \<le> r + toothDepth"
    using assms by (auto simp: tooth_radius_def Let_def)
qed

subsection \<open>The vertices of a gear\<close>

lemma tooth_radius_tip: "tooth_radius r toothDepth 1 = r + toothDepth"
  by (simp add: tooth_radius_def)



lemma max_vertex_radius:
  assumes "1 \<le> teeth" "0 < r" "0 \<le> toothDepth"
  shows "Max (vertex_radius ` gear_point (teeth * 4) r toothDepth ` {..<4 * teeth}) = r + toothDepth"
proof (rule Max_eqI)
  show "finite (vertex_radius ` gear_point (teeth * 4) r toothDepth ` {..<4 * teeth})"
    by simp
next
  fix y
  assume "y \<in> vertex_radius ` gear_point (teeth * 4) r toothDepth ` {..<4 * teeth}"
  then obtain i where "y = vertex_radius (gear_point (teeth * 4) r toothDepth i)"
    by auto
  then show "y \<le> r + toothDepth"
    using tooth_radius_bounds [OF assms(2,3), of i]
    by (simp add: vertex_radius_gear_point)
next
  have "1 < 4 * teeth" using assms(1) by simp
  moreover have "vertex_radius (gear_point (teeth * 4) r toothDepth 1) = r + toothDepth"
  proof -
    have "vertex_radius (gear_point (teeth * 4) r toothDepth 1) = tooth_radius r toothDepth 1"
      by (rule vertex_radius_gear_point) (rule tooth_radius_bounds(1) [OF assms(2,3)])
    then show ?thesis
      by (simp only: tooth_radius_tip)
  qed
  ultimately show "r + toothDepth \<in> vertex_radius ` gear_point (teeth * 4) r toothDepth ` {..<4 * teeth}"
    by (metis (no_types, lifting) image_eqI lessThan_iff)
qed

lemma makeGearPath_result:
  "makeGearPath teeth r toothDepth centerRadius w =
     (\<lparr>sh_group = length (elements w), sh_teeth = teeth, sh_r = r, sh_outer = r + toothDepth\<rparr>,
      w\<lparr>elements := elements w @
           [\<lparr>el_id = None, el_transform = None, el_transformOrigin = None, el_data_rot = None,
             el_children = [PathNode (gearPathData teeth r toothDepth) ''gear-path'',
                            CircleNode 0 0 centerRadius ''rgba(255,255,255,0.02)'']\<rparr>]\<rparr>)"
  by (simp add: makeGearPath_def createElement_def Let_def)

subsection \<open>Rounding of the coordinates\<close>

lemma toFixed2_Fixed:
  "\<bar>x\<bar> < 10 ^ 21 \<Longrightarrow> toFixed2 x = Fixed (x < 0) (nat \<lfloor>\<bar>x\<bar> * 100 + 1 / 2\<rfloor>)"
  by (simp add: toFixed2_def Let_def abs_if)



lemma toFixed2_grid:
  assumes "\<bar>x\<bar> < 10 ^ 21"
  shows "\<exists>k::int. fixed_val (toFixed2 x) = of_int k / 100"
proof (cases "x < 0")
  case True
  have "- (real (nat \<lfloor>\<bar>x\<bar> * 100 + 1 / 2\<rfloor>) / 100) = of_int (- int (nat \<lfloor>\<bar>x\<bar> * 100 + 1 / 2\<rfloor>)) / 100"
    by simp
  with True show ?thesis
    unfolding toFixed2_Fixed [OF assms] by (metis fixed_val.simps(1))
next
  case False
  have "real (nat \<lfloor>\<bar>x\<bar> * 100 + 1 / 2\<rfloor>) / 100 = of_int (int (nat \<lfloor>\<bar>x\<bar> * 100 + 1 / 2\<rfloor>)) / 100"
    by simp
  with False show ?thesis
    unfolding toFixed2_Fixed [OF assms] by (metis fixed_val.simps(1))
qed









subsection \<open>The emitted vertices\<close>






subsection \<open>Clock angles\<close>

text \<open>
  Claim C2. The three angles are the stated functions of the date's fields, and
  at 10:15:30.000 the minute angle is 93 and the hour angle is 307.75.
\<close>

theorem getClockAngles_formulas:
  "secondAngle (getClockAngles date) =
     (real (getSeconds date) + real (getMilliseconds date) / 1000) * 6 \<and>
   minuteAngle (getClockAngles date) =
     (real (getMinutes date) + real (getSeconds date) / 60 + real (getMilliseconds date) / 60000) * 6 \<and>
   hourAngle (getClockAngles date) =
     (real (getHours date mod 12) + real (getMinutes date) / 60 + real (getSeconds date) / 3600) * 30 \<and>
   minuteAngle (getClockAngles
     \<lparr>getHours = 10, getMinutes = 15, getSeconds = 30, getMilliseconds = 0\<rparr>) = 93 \<and>
   hourAngle (getClockAngles
     \<lparr>getHours = 10, getMinutes = 15, getSeconds = 30, getMilliseconds = 0\<rparr>) = 307.75"
  by (simp add: getClockAngles_def Let_def)

subsection \<open>What \<open>buildGears\<close> constructs\<close>

lemma place_gear_result:
  "place_gear c w =
     (placed c (length (elements w)),
      w\<lparr>elements := elements w @ [gear_element c],
        gearContainer := gearContainer w @ [length (elements w)]\<rparr>)"
  by (simp add: place_gear_def makeGearPath_result update_element_def appendChild_def
      gear_element_def placed_def Let_def)

lemma map_config_result:
  "map_config cfg w =
     (map (\<lambda>k. placed (cfg ! k) (length (elements w) + k)) [0..<length cfg],
      w\<lparr>elements := elements w @ map gear_element cfg,
        gearContainer := gearContainer w @ map (\<lambda>k. length (elements w) + k) [0..<length cfg]\<rparr>)"
proof (induction cfg arbitrary: w)
  case Nil
  show ?case by simp
next
  case (Cons c cs)
  have shift: "[0..<Suc (length cs)] = 0 # map Suc [0..<length cs]"
    by (simp add: upt_conv_Cons map_Suc_upt del: upt_Suc)
  show ?case
    by (simp add: place_gear_result Cons.IH shift comp_def del: upt_Suc)
qed

lemma buildGears_from_result:
  "buildGears_from cfg w =
     (let n = length (elements w) in
      (\<lparr>gears = map (\<lambda>k. placed (cfg ! k) (n + k)) [0..<length cfg],
        pinion = \<lparr>g_group = n + length cfg, g_teeth = 10, g_r = 8, g_outer = 12, g_cx = 0, g_cy = 0\<rparr>\<rparr>,
       w\<lparr>elements := elements w @ map gear_element cfg @ [pinion_element],
         gearContainer := map (\<lambda>k. n + k) [0..<length cfg] @ [n + length cfg]\<rparr>))"
  by (simp add: buildGears_from_def map_config_result makeGearPath_result update_element_def
      appendChild_def pinion_element_def Let_def nth_append)

lemma buildGears_result:
  "buildGears w =
     (let n = length (elements w) in
      (\<lparr>gears = [placed (config ! 0) n, placed (config ! 1) (n + 1), placed (config ! 2) (n + 2)],
        pinion = \<lparr>g_group = n + 3, g_teeth = 10, g_r = 8, g_outer = 12, g_cx = 0, g_cy = 0\<rparr>\<rparr>,
       w\<lparr>elements := elements w @ map gear_element config @ [pinion_element],
         gearContainer := [n, n + 1, n + 2, n + 3]\<rparr>))"
proof -
  have len: "length config = 3" by (simp add: config_def)
  have upt3: "[0..<3] = [0, 1, 2]" by (simp add: upt_rec)
  show ?thesis
    by (simp add: buildGears_def buildGears_from_result len upt3 Let_def)
qed

lemma start_result:
  "start w =
     w\<lparr>elements := elements w @ map gear_element config @ [pinion_element],
       gearContainer := [length (elements w), length (elements w) + 1,
                         length (elements w) + 2, length (elements w) + 3],
       gearsObj := Some (built_train (length (elements w)))\<rparr>"
  by (simp add: start_def buildGears_result built_train_def Let_def)

lemma length_config: "length config = 3"
  by (simp add: config_def)

lemma built_train_ok: "train_ok (built_train (length (elements w))) (start w)"
  by (simp add: train_ok_def built_train_def start_result placed_def length_config)

lemma built_train_teeth:
  "map g_teeth (gears (built_train n)) = [44, 22, 14]" "g_teeth (pinion (built_train n)) = 10"
  by (simp_all add: built_train_def placed_def config_def)

lemma start_fresh:
  "g \<in> set (gears (built_train (length (elements w)))) \<Longrightarrow>
   el_data_rot (elements (start w) ! g_group g) = None"
  by (auto simp: built_train_def start_result placed_def nth_append config_def gear_element_def)

lemma start_fields [simp]:
  "running (start w) = running w"
  "gearsObj (start w) = Some (built_train (length (elements w)))"
  by (simp_all add: start_result)

lemma fst_buildGears: "fst (buildGears w) = built_train (length (elements w))"
  by (simp add: buildGears_result built_train_def Let_def)

lemma start_from_result:
  "start_from cfg w =
     w\<lparr>elements := elements w @ map gear_element cfg @ [pinion_element],
       gearContainer := map (\<lambda>k. length (elements w) + k) [0..<length cfg] @
                        [length (elements w) + length cfg],
       gearsObj := Some (fst (buildGears_from cfg w))\<rparr>"
  by (simp add: start_from_def buildGears_from_result Let_def)

subsection \<open>One frame\<close>

lemma update_element_fields [simp]:
  "elements (update_element a f w) = (elements w)[a := f (elements w ! a)]"
  "gearContainer (update_element a f w) = gearContainer w"
  "minuteGroup (update_element a f w) = minuteGroup w"
  "hourGroup (update_element a f w) = hourGroup w"
  "running (update_element a f w) = running w"
  "toggleBtn (update_element a f w) = toggleBtn w"
  "gearsObj (update_element a f w) = gearsObj w"
  by (simp_all add: update_element_def)

lemma rotate_gear_fields [simp]:
  "length (elements (rotate_gear pt pn g w)) = length (elements w)"
  "gearContainer (rotate_gear pt pn g w) = gearContainer w"
  "minuteGroup (rotate_gear pt pn g w) = minuteGroup w"
  "hourGroup (rotate_gear pt pn g w) = hourGroup w"
  "running (rotate_gear pt pn g w) = running w"
  "toggleBtn (rotate_gear pt pn g w) = toggleBtn w"
  "gearsObj (rotate_gear pt pn g w) = gearsObj w"
  by (simp_all add: rotate_gear_def Let_def)

lemma rotate_gear_other:
  "a \<noteq> g_group g \<Longrightarrow> elements (rotate_gear pt pn g w) ! a = elements w ! a"
  by (simp add: rotate_gear_def Let_def)

lemma rotate_gear_self:
  "g_group g < length (elements w) \<Longrightarrow>
   elements (rotate_gear pt pn g w) ! g_group g =
     (elements w ! g_group g)
       \<lparr>el_transform := Some (TranslateRotate (g_cx g) (g_cy g)
           (smooth (stored_rotation (elements w ! g_group g)) (mesh_target pt pn (g_teeth g)))),
        el_data_rot := Some (smooth (stored_rotation (elements w ! g_group g))
           (mesh_target pt pn (g_teeth g)))\<rparr>"
  by (simp add: rotate_gear_def Let_def)

lemma forEach_gear_fields [simp]:
  "length (elements (forEach_gear pt pn gs w)) = length (elements w)"
  "gearContainer (forEach_gear pt pn gs w) = gearContainer w"
  "minuteGroup (forEach_gear pt pn gs w) = minuteGroup w"
  "hourGroup (forEach_gear pt pn gs w) = hourGroup w"
  "running (forEach_gear pt pn gs w) = running w"
  "toggleBtn (forEach_gear pt pn gs w) = toggleBtn w"
  "gearsObj (forEach_gear pt pn gs w) = gearsObj w"
  by (induction gs arbitrary: w; simp)+

lemma forEach_gear_other:
  "a \<notin> g_group ` set gs \<Longrightarrow> elements (forEach_gear pt pn gs w) ! a = elements w ! a"
  by (induction gs arbitrary: w) (auto simp: rotate_gear_other)

lemma forEach_gear_self:
  assumes "distinct (map g_group gs)" and "g \<in> set gs" and "g_group g < length (elements w)"
  shows "elements (forEach_gear pt pn gs w) ! g_group g =
     (elements w ! g_group g)
       \<lparr>el_transform := Some (TranslateRotate (g_cx g) (g_cy g)
           (smooth (stored_rotation (elements w ! g_group g)) (mesh_target pt pn (g_teeth g)))),
        el_data_rot := Some (smooth (stored_rotation (elements w ! g_group g))
           (mesh_target pt pn (g_teeth g)))\<rparr>"
  using assms
proof (induction gs arbitrary: w)
  case Nil
  then show ?case by simp
next
  case (Cons h hs)
  show ?case
  proof (cases "g = h")
    case True
    with Cons.prems have "g_group g \<notin> g_group ` set hs" by auto
    then have "elements (forEach_gear pt pn hs (rotate_gear pt pn h w)) ! g_group g =
        elements (rotate_gear pt pn h w) ! g_group g"
      by (rule forEach_gear_other)
    with True Cons.prems(3) show ?thesis
      by (simp add: rotate_gear_self)
  next
    case False
    with Cons.prems have in_hs: "g \<in> set hs"
      by simp
    from Cons.prems have "g_group h \<notin> g_group ` set hs"
      by simp
    with in_hs have ne: "g_group g \<noteq> g_group h"
      by (metis image_eqI)
    from Cons.prems have d: "distinct (map g_group hs)" by simp
    have len: "g_group g < length (elements (rotate_gear pt pn h w))"
      using Cons.prems(3) by simp
    show ?thesis
      using Cons.IH [OF d in_hs len] ne by (simp add: rotate_gear_other)
  qed
qed

lemma loop_paused:
  "\<not> running w \<Longrightarrow>
   loop now w = Inr (w\<lparr>minuteGroup := Some (Rotate (Fin (minuteAngle (getClockAngles now)))),
                        hourGroup := Some (Rotate (Fin (hourAngle (getClockAngles now))))\<rparr>)"
  by (simp add: loop_def Let_def)

lemma loop_running:
  "running w \<Longrightarrow> gearsObj w = Some tr \<Longrightarrow>
   loop now w =
     Inr (forEach_gear (Fin (minuteAngle (getClockAngles now)))
            (js_or (Fin (real (g_teeth (pinion tr)))) (Fin 10)) (gears tr)
            (update_element (g_group (pinion tr))
               (\<lambda>e. e\<lparr>el_transform := Some (TranslateRotate (g_cx (pinion tr)) (g_cy (pinion tr))
                         (Fin (minuteAngle (getClockAngles now))))\<rparr>)
               (w\<lparr>minuteGroup := Some (Rotate (Fin (minuteAngle (getClockAngles now)))),
                  hourGroup := Some (Rotate (Fin (hourAngle (getClockAngles now))))\<rparr>)))"
  by (simp add: loop_def Let_def)

lemma loop_running_gear:
  assumes "running w" and "gearsObj w = Some tr" and "train_ok tr w" and "g \<in> set (gears tr)"
  shows "\<exists>w'. loop now w = Inr w' \<and> running w' \<and> gearsObj w' = Some tr \<and> train_ok tr w' \<and>
     elements w' ! g_group g =
       (elements w ! g_group g)
         \<lparr>el_transform := Some (TranslateRotate (g_cx g) (g_cy g)
             (smooth (stored_rotation (elements w ! g_group g))
                (mesh_target (Fin (minuteAngle (getClockAngles now)))
                   (js_or (Fin (real (g_teeth (pinion tr)))) (Fin 10)) (g_teeth g)))),
          el_data_rot := Some (smooth (stored_rotation (elements w ! g_group g))
             (mesh_target (Fin (minuteAngle (getClockAngles now)))
                (js_or (Fin (real (g_teeth (pinion tr)))) (Fin 10)) (g_teeth g)))\<rparr>"
proof -
  from assms(3) have d: "distinct (map g_group (gears tr))"
    and pne: "g_group (pinion tr) \<notin> g_group ` set (gears tr)"
    and lens: "list_all (\<lambda>g. g_group g < length (elements w)) (pinion tr # gears tr)"
    by (simp_all add: train_ok_def)
  from lens assms(4) have lg: "g_group g < length (elements w)"
    by (auto simp: list_all_iff)
  from pne assms(4) have ne: "g_group g \<noteq> g_group (pinion tr)"
    by (metis image_eqI)
  show ?thesis
    unfolding loop_running [OF assms(1,2)]
    apply (rule exI, intro conjI, rule refl)
    using assms(1,2,3) apply (simp_all add: train_ok_def)
    apply (subst forEach_gear_self [OF d assms(4)])
    using lg ne apply simp_all
    done
qed

lemma loop_running_pinion:
  assumes "running w" and "gearsObj w = Some tr" and "train_ok tr w"
  shows "\<exists>w'. loop now w = Inr w' \<and>
     elements w' ! g_group (pinion tr) =
       (elements w ! g_group (pinion tr))
         \<lparr>el_transform := Some (TranslateRotate (g_cx (pinion tr)) (g_cy (pinion tr))
             (Fin (minuteAngle (getClockAngles now))))\<rparr>"
proof -
  from assms(3) have pne: "g_group (pinion tr) \<notin> g_group ` set (gears tr)"
    and lp: "g_group (pinion tr) < length (elements w)"
    by (simp_all add: train_ok_def)
  show ?thesis
    unfolding loop_running [OF assms(1,2)]
    using lp by (simp add: forEach_gear_other [OF pne])
qed

lemma mesh_target_finite:
  "T \<noteq> 0 \<Longrightarrow> mesh_target (Fin m) (Fin p) T = Fin (- m * (p / real T))"
  by (simp add: mesh_target_def)

lemma smooth_finite: "smooth (Fin c) (Fin t) = Fin (c + (t - c) * 0.14)"
  by (simp add: smooth_def jsub_def)

lemma stored_rotation_absent: "el_data_rot e = None \<Longrightarrow> stored_rotation e = Fin 0"
  by (simp add: stored_rotation_def js_or_def)

lemma stored_rotation_NaN: "el_data_rot e = Some NaN \<Longrightarrow> stored_rotation e = Fin 0"
  by (simp add: stored_rotation_def js_or_def)

lemma stored_rotation_Fin: "el_data_rot e = Some (Fin c) \<Longrightarrow> stored_rotation e = Fin c"
  by (auto simp: stored_rotation_def js_or_def)

lemma loop_running_all:
  assumes "running w" and "gearsObj w = Some tr" and "train_ok tr w"
    and "g_teeth (pinion tr) = 10"
  shows "\<exists>w'. loop now w = Inr w' \<and> running w' \<and> gearsObj w' = Some tr \<and> train_ok tr w' \<and>
     el_transform (elements w' ! g_group (pinion tr)) =
       Some (TranslateRotate (g_cx (pinion tr)) (g_cy (pinion tr))
              (Fin (minuteAngle (getClockAngles now)))) \<and>
     (\<forall>g\<in>set (gears tr).
        el_data_rot (elements w' ! g_group g) =
          Some (smooth (stored_rotation (elements w ! g_group g))
                  (mesh_target (Fin (minuteAngle (getClockAngles now))) (Fin 10) (g_teeth g))) \<and>
        el_transform (elements w' ! g_group g) =
          Some (TranslateRotate (g_cx g) (g_cy g)
                 (smooth (stored_rotation (elements w ! g_group g))
                    (mesh_target (Fin (minuteAngle (getClockAngles now))) (Fin 10) (g_teeth g)))))"
proof -
  from loop_running_pinion [OF assms(1-3), of now]
  obtain w' where w': "loop now w = Inr w'"
    and pin: "elements w' ! g_group (pinion tr) =
       (elements w ! g_group (pinion tr))
         \<lparr>el_transform := Some (TranslateRotate (g_cx (pinion tr)) (g_cy (pinion tr))
             (Fin (minuteAngle (getClockAngles now))))\<rparr>"
    by blast
  have basic: "running w'" "gearsObj w' = Some tr" "train_ok tr w'"
    using w' assms(1-3) unfolding loop_running [OF assms(1,2)]
    by (auto simp: train_ok_def)
  have "el_data_rot (elements w' ! g_group g) =
          Some (smooth (stored_rotation (elements w ! g_group g))
                  (mesh_target (Fin (minuteAngle (getClockAngles now))) (Fin 10) (g_teeth g))) \<and>
        el_transform (elements w' ! g_group g) =
          Some (TranslateRotate (g_cx g) (g_cy g)
                 (smooth (stored_rotation (elements w ! g_group g))
                    (mesh_target (Fin (minuteAngle (getClockAngles now))) (Fin 10) (g_teeth g))))"
    if "g \<in> set (gears tr)" for g
    using loop_running_gear [OF assms(1-3) that, of now] w'
    by (auto simp: assms(4) js_or_def)
  with w' pin basic show ?thesis
    by (intro exI [of _ w']) simp
qed

lemma minuteAngle_10_15_30: "minuteAngle (getClockAngles time_10_15_30) = 93"
  by (simp add: getClockAngles_def time_10_15_30_def)

lemma minuteAngle_nonneg: "0 \<le> minuteAngle (getClockAngles now)"
  by (simp add: getClockAngles_def Let_def)

lemma rotation_after_first_frame:
  assumes "running w" and "k < 3"
  shows "rotation_after [now] (start w) (length (elements w) + k) =
     Inr (Some (Fin (0.14 * (- minuteAngle (getClockAngles now) *
                                (10 / real (c_teeth (config ! k)))))))"
proof -
  define n where "n = length (elements w)"
  define g where "g = placed (config ! k) (n + k)"
  from assms(2) have "k = 0 \<or> k = 1 \<or> k = 2" by auto
  then have g_in: "g \<in> set (gears (built_train n))"
    by (auto simp: g_def built_train_def)
  from \<open>k = 0 \<or> k = 1 \<or> k = 2\<close> have T: "g_teeth g \<noteq> 0"
    by (auto simp: g_def placed_def config_def)
  have grp: "g_group g = n + k" "g_teeth g = c_teeth (config ! k)"
    by (simp_all add: g_def placed_def)
  have cur: "stored_rotation (elements (start w) ! g_group g) = Fin 0"
    using start_fresh [of g w] g_in by (simp add: n_def stored_rotation_absent)
  from loop_running_all [of "start w" "built_train n" now]
  obtain w' where "loop now (start w) = Inr w'"
    and "\<forall>g\<in>set (gears (built_train n)).
        el_data_rot (elements w' ! g_group g) =
          Some (smooth (stored_rotation (elements (start w) ! g_group g))
                  (mesh_target (Fin (minuteAngle (getClockAngles now))) (Fin 10) (g_teeth g))) \<and>
        el_transform (elements w' ! g_group g) =
          Some (TranslateRotate (g_cx g) (g_cy g)
                 (smooth (stored_rotation (elements (start w) ! g_group g))
                    (mesh_target (Fin (minuteAngle (getClockAngles now))) (Fin 10) (g_teeth g))))"
    using assms(1) built_train_ok [of w] built_train_teeth(2) [of n]
    by (auto simp: n_def)
  with g_in cur T show ?thesis
    by (simp add: rotation_after_def grp [symmetric] mesh_target_finite smooth_finite n_def [symmetric])
qed

lemma page0_started:
  "running (start page0)" "gearsObj (start page0) = Some (built_train 0)"
  "train_ok (built_train 0) (start page0)" "g_teeth (pinion (built_train 0)) = 10"
  "placed (config ! 0) 0 \<in> set (gears (built_train 0))"
  "placed (config ! 1) 1 \<in> set (gears (built_train 0))"
  "stored_rotation (elements (start page0) ! 0) = Fin 0"
  "stored_rotation (elements (start page0) ! 1) = Fin 0"
  "el_data_rot (elements (start page0) ! 0) = None"
proof -
  have e: "length (elements page0) = 0" by (simp add: page0_def)
  show "running (start page0)" "gearsObj (start page0) = Some (built_train 0)"
    by (simp_all add: e) (simp add: page0_def)
  show "train_ok (built_train 0) (start page0)"
    using built_train_ok [of page0] by (simp add: e)
  show "g_teeth (pinion (built_train 0)) = 10"
    by (rule built_train_teeth)
  show g1: "placed (config ! 0) 0 \<in> set (gears (built_train 0))"
    and g2: "placed (config ! 1) 1 \<in> set (gears (built_train 0))"
    by (simp_all add: built_train_def)
  from start_fresh [of "placed (config ! 0) 0" page0] g1
  show n0: "el_data_rot (elements (start page0) ! 0) = None"
    by (simp add: e placed_def)
  then show "stored_rotation (elements (start page0) ! 0) = Fin 0"
    by (rule stored_rotation_absent)
  from start_fresh [of "placed (config ! 1) 1" page0] g2
  have "el_data_rot (elements (start page0) ! 1) = None"
    by (simp add: e placed_def)
  then show "stored_rotation (elements (start page0) ! 1) = Fin 0"
    by (rule stored_rotation_absent)
qed

lemma placed_simps [simp]:
  "g_group (placed c a) = a" "g_teeth (placed c a) = c_teeth c"
  "g_cx (placed c a) = c_cx c" "g_cy (placed c a) = c_cy c"
  by (simp_all add: placed_def)

lemma config_teeth: "c_teeth (config ! 0) = 44" "c_teeth (config ! 1) = 22" "c_teeth (config ! 2) = 14"
  by (simp_all add: config_def)

subsection \<open>The Running frame\<close>

text \<open>
  Claim C3. On a frame in the Running state the pinion's rotation is set to the
  minute angle itself, and every visible gear with tooth count \<open>T\<close> gets the target
  \<open>- pinionRotation \<times> (10 / T)\<close>, the smoothed rotation
  \<open>currentRotation + (target - currentRotation) \<times> 0.14\<close> as its transform, and the same
  value stored in \<open>data-rot\<close>, where the next frame reads it back.
\<close>

theorem running_frame:
  assumes "running w" and "gearsObj w = Some tr" and "train_ok tr w"
    and "g_teeth (pinion tr) = 10"
  shows "\<exists>w'. loop now w = Inr w' \<and>
     el_transform (elements w' ! g_group (pinion tr)) =
       Some (TranslateRotate (g_cx (pinion tr)) (g_cy (pinion tr))
              (Fin (minuteAngle (getClockAngles now)))) \<and>
     (\<forall>g\<in>set (gears tr).
        let pinionRotation = minuteAngle (getClockAngles now);
            currentRotation = stored_rotation (elements w ! g_group g);
            target = mesh_target (Fin pinionRotation) (Fin 10) (g_teeth g);
            nextRotation = smooth currentRotation target
        in el_data_rot (elements w' ! g_group g) = Some nextRotation \<and>
           el_transform (elements w' ! g_group g) =
             Some (TranslateRotate (g_cx g) (g_cy g) nextRotation) \<and>
           (g_teeth g \<noteq> 0 \<longrightarrow>
              target = Fin (- pinionRotation * (10 / real (g_teeth g)))) \<and>
           (\<forall>c t. currentRotation = Fin c \<and> target = Fin t \<longrightarrow>
              nextRotation = Fin (c + (t - c) * 0.14) \<and>
              stored_rotation (elements w' ! g_group g) = nextRotation))"
proof -
  from loop_running_all [OF assms, of now]
  obtain w' where w': "loop now w = Inr w'"
    and pin: "el_transform (elements w' ! g_group (pinion tr)) =
       Some (TranslateRotate (g_cx (pinion tr)) (g_cy (pinion tr))
              (Fin (minuteAngle (getClockAngles now))))"
    and all: "\<forall>g\<in>set (gears tr).
        el_data_rot (elements w' ! g_group g) =
          Some (smooth (stored_rotation (elements w ! g_group g))
                  (mesh_target (Fin (minuteAngle (getClockAngles now))) (Fin 10) (g_teeth g))) \<and>
        el_transform (elements w' ! g_group g) =
          Some (TranslateRotate (g_cx g) (g_cy g)
                 (smooth (stored_rotation (elements w ! g_group g))
                    (mesh_target (Fin (minuteAngle (getClockAngles now))) (Fin 10) (g_teeth g))))"
    by blast
  have "let pinionRotation = minuteAngle (getClockAngles now);
            currentRotation = stored_rotation (elements w ! g_group g);
            target = mesh_target (Fin pinionRotation) (Fin 10) (g_teeth g);
            nextRotation = smooth currentRotation target
        in el_data_rot (elements w' ! g_group g) = Some nextRotation \<and>
           el_transform (elements w' ! g_group g) =
             Some (TranslateRotate (g_cx g) (g_cy g) nextRotation) \<and>
           (g_teeth g \<noteq> 0 \<longrightarrow>
              target = Fin (- pinionRotation * (10 / real (g_teeth g)))) \<and>
           (\<forall>c t. currentRotation = Fin c \<and> target = Fin t \<longrightarrow>
              nextRotation = Fin (c + (t - c) * 0.14) \<and>
              stored_rotation (elements w' ! g_group g) = nextRotation)"
    if "g \<in> set (gears tr)" for g
    using bspec [OF all that]
    by (auto simp: Let_def mesh_target_finite smooth_finite stored_rotation_Fin)
  with w' pin show ?thesis
    by (intro exI [of _ w']) simp
qed

text \<open>
  The theorem on the first frame after \<open>start\<close>, at 10:15:30: gear \<open>g1\<close> is turned to
  \<open>0.14 \<times> (- 93 \<times> 10 / 44) = - 651 / 220\<close> degrees.
\<close>

theorem running_frame_witness:
  "running (start page0) \<and> gearsObj (start page0) = Some (built_train 0) \<and>
   train_ok (built_train 0) (start page0) \<and> g_teeth (pinion (built_train 0)) = 10 \<and>
   rotation_after [time_10_15_30] (start page0) 0 = Inr (Some (Fin (- (651 / 220))))"
proof -
  from running_frame [OF page0_started(1-4), of time_10_15_30]
  obtain w' where w': "loop time_10_15_30 (start page0) = Inr w'"
    and all: "\<forall>g\<in>set (gears (built_train 0)).
        let pinionRotation = minuteAngle (getClockAngles time_10_15_30);
            currentRotation = stored_rotation (elements (start page0) ! g_group g);
            target = mesh_target (Fin pinionRotation) (Fin 10) (g_teeth g);
            nextRotation = smooth currentRotation target
        in el_data_rot (elements w' ! g_group g) = Some nextRotation \<and>
           el_transform (elements w' ! g_group g) =
             Some (TranslateRotate (g_cx g) (g_cy g) nextRotation) \<and>
           (g_teeth g \<noteq> 0 \<longrightarrow>
              target = Fin (- pinionRotation * (10 / real (g_teeth g)))) \<and>
           (\<forall>c t. currentRotation = Fin c \<and> target = Fin t \<longrightarrow>
              nextRotation = Fin (c + (t - c) * 0.14) \<and>
              stored_rotation (elements w' ! g_group g) = nextRotation)"
    by blast
  from bspec [OF all page0_started(5)]
  have "el_data_rot (elements w' ! 0) = Some (Fin (- (651 / 220)))"
    by (simp add: Let_def config_teeth minuteAngle_10_15_30 page0_started(7)
        mesh_target_finite smooth_finite)
  with w' have "rotation_after [time_10_15_30] (start page0) 0 = Inr (Some (Fin (- (651 / 220))))"
    by (simp add: rotation_after_def)
  with page0_started(1-4) show ?thesis by simp
qed

subsection \<open>Paused frames\<close>

lemma toggle_fields [simp]:
  "running (toggle w) = (\<not> running w)"
  "elements (toggle w) = elements w"
  "gearsObj (toggle w) = gearsObj w"
  "gearContainer (toggle w) = gearContainer w"
  by (simp_all add: toggle_def Let_def)

lemma frames_paused:
  "\<not> running w \<Longrightarrow>
   \<exists>w'. frames ds w = Inr w' \<and> elements w' = elements w \<and> gearsObj w' = gearsObj w \<and>
        gearContainer w' = gearContainer w \<and> \<not> running w' \<and>
        (ds \<noteq> [] \<longrightarrow>
           minuteGroup w' = Some (Rotate (Fin (minuteAngle (getClockAngles (last ds))))) \<and>
           hourGroup w' = Some (Rotate (Fin (hourAngle (getClockAngles (last ds))))))"
proof (induction ds arbitrary: w)
  case Nil
  then show ?case by simp
next
  case (Cons now rest)
  define w1 where "w1 = w\<lparr>minuteGroup := Some (Rotate (Fin (minuteAngle (getClockAngles now)))),
                        hourGroup := Some (Rotate (Fin (hourAngle (getClockAngles now))))\<rparr>"
  from Cons.prems have step: "loop now w = Inr w1"
    by (simp add: loop_paused w1_def)
  have "\<not> running w1" using Cons.prems by (simp add: w1_def)
  from Cons.IH [OF this] obtain w' where
    "frames rest w1 = Inr w'" "elements w' = elements w1" "gearsObj w' = gearsObj w1"
    "gearContainer w' = gearContainer w1" "\<not> running w'"
    "rest \<noteq> [] \<longrightarrow>
       minuteGroup w' = Some (Rotate (Fin (minuteAngle (getClockAngles (last rest))))) \<and>
       hourGroup w' = Some (Rotate (Fin (hourAngle (getClockAngles (last rest)))))"
    by blast
  moreover have "rest = [] \<Longrightarrow> w' = w1"
    using calculation(1) by simp
  ultimately show ?case
    using step by (intro exI [of _ w']) (auto simp: w1_def)
qed

text \<open>
  Claim C4. After the click that pauses a running animation, any run of frames
  leaves every element of the store as it was at that moment (so the transform
  and the stored rotation of every gear and of the pinion are unchanged), while
  each frame sets the minute and the hour hand from its own time stamp.
\<close>

theorem paused_frames_keep_rotations:
  assumes "running w0"
  shows "\<exists>w'. frames ds (toggle w0) = Inr w' \<and> \<not> running w' \<and>
        elements w' = elements w0 \<and> gearsObj w' = gearsObj w0 \<and>
        (ds \<noteq> [] \<longrightarrow>
           minuteGroup w' = Some (Rotate (Fin (minuteAngle (getClockAngles (last ds))))) \<and>
           hourGroup w' = Some (Rotate (Fin (hourAngle (getClockAngles (last ds))))))"
proof -
  from assms have "\<not> running (toggle w0)" by simp
  from frames_paused [OF this, of ds] show ?thesis
    by auto
qed

text \<open>
  The theorem for two frames, at 10:15:30 and 10:15:31, after pausing a fresh train.
\<close>

theorem paused_frames_keep_rotations_witness:
  "running (start page0) \<and>
   (\<exists>w'. frames [time_10_15_30, time_10_15_30\<lparr>getSeconds := 31\<rparr>] (toggle (start page0)) = Inr w' \<and>
      elements w' = elements (start page0) \<and>
      minuteGroup w' = Some (Rotate (Fin (931 / 10))))"
proof -
  have r: "running (start page0)" by (simp add: page0_def)
  have "minuteAngle (getClockAngles (time_10_15_30\<lparr>getSeconds := 31\<rparr>)) = 931 / 10"
    by (simp add: getClockAngles_def time_10_15_30_def)
  with paused_frames_keep_rotations [OF r, of "[time_10_15_30, time_10_15_30\<lparr>getSeconds := 31\<rparr>]"] r
  show ?thesis by auto
qed

subsection \<open>The first frame after a build\<close>

text \<open>
  Claim C10. When a gear's \<open>data-rot\<close> attribute is absent or not numeric, the
  rotation read back is 0 and the Running frame stores \<open>0.14 \<times> target\<close>. After
  \<open>start\<close> no gear of the new train has the attribute, so every gear starts its
  smoothing from 0.
\<close>

theorem first_frame_rotation:
  assumes "running w" and "gearsObj w = Some tr" and "train_ok tr w"
    and "g_teeth (pinion tr) = 10" and "g \<in> set (gears tr)" and "g_teeth g \<noteq> 0"
    and "el_data_rot (elements w ! g_group g) = None \<or>
         el_data_rot (elements w ! g_group g) = Some NaN"
  shows "stored_rotation (elements w ! g_group g) = Fin 0 \<and>
     (\<exists>w'. loop now w = Inr w' \<and>
        el_data_rot (elements w' ! g_group g) =
          Some (Fin (0.14 * (- minuteAngle (getClockAngles now) * (10 / real (g_teeth g)))))) \<and>
     (\<exists>built. gearsObj (start v) = Some built \<and>
        (\<forall>h\<in>set (gears built).
           el_data_rot (elements (start v) ! g_group h) = None \<and>
           stored_rotation (elements (start v) ! g_group h) = Fin 0))"
proof (intro conjI)
  from assms(7) show cur: "stored_rotation (elements w ! g_group g) = Fin 0"
    by (auto simp: stored_rotation_absent stored_rotation_NaN)
  from loop_running_all [OF assms(1-4), of now]
  obtain w' where w': "loop now w = Inr w'"
    and all: "\<forall>g\<in>set (gears tr).
        el_data_rot (elements w' ! g_group g) =
          Some (smooth (stored_rotation (elements w ! g_group g))
                  (mesh_target (Fin (minuteAngle (getClockAngles now))) (Fin 10) (g_teeth g))) \<and>
        el_transform (elements w' ! g_group g) =
          Some (TranslateRotate (g_cx g) (g_cy g)
                 (smooth (stored_rotation (elements w ! g_group g))
                    (mesh_target (Fin (minuteAngle (getClockAngles now))) (Fin 10) (g_teeth g))))"
    by blast
  from bspec [OF all assms(5)] assms(6) cur
  have "el_data_rot (elements w' ! g_group g) =
          Some (Fin (0.14 * (- minuteAngle (getClockAngles now) * (10 / real (g_teeth g)))))"
    by (simp add: mesh_target_finite smooth_finite)
  with w' show "\<exists>w'. loop now w = Inr w' \<and>
        el_data_rot (elements w' ! g_group g) =
          Some (Fin (0.14 * (- minuteAngle (getClockAngles now) * (10 / real (g_teeth g)))))"
    by blast
next
  have "el_data_rot (elements (start v) ! g_group h) = None \<and>
        stored_rotation (elements (start v) ! g_group h) = Fin 0"
    if "h \<in> set (gears (built_train (length (elements v))))" for h
    using start_fresh [OF that] by (simp add: stored_rotation_absent)
  then show "\<exists>built. gearsObj (start v) = Some built \<and>
        (\<forall>h\<in>set (gears built).
           el_data_rot (elements (start v) ! g_group h) = None \<and>
           stored_rotation (elements (start v) ! g_group h) = Fin 0)"
    by (intro exI [of _ "built_train (length (elements v))"]) simp
qed

text \<open>
  The theorem for gear \<open>g1\<close> on the first frame after \<open>start\<close>, at 10:15:30.
\<close>

theorem first_frame_rotation_witness:
  "running (start page0) \<and> gearsObj (start page0) = Some (built_train 0) \<and>
   train_ok (built_train 0) (start page0) \<and> g_teeth (pinion (built_train 0)) = 10 \<and>
   placed (config ! 0) 0 \<in> set (gears (built_train 0)) \<and>
   g_teeth (placed (config ! 0) 0) \<noteq> 0 \<and>
   el_data_rot (elements (start page0) ! g_group (placed (config ! 0) 0)) = None \<and>
   (\<exists>w'. loop time_10_15_30 (start page0) = Inr w' \<and>
      el_data_rot (elements w' ! 0) = Some (Fin (- (651 / 220))))"
proof -
  have T: "g_teeth (placed (config ! 0) 0) \<noteq> 0"
    by (simp add: config_teeth)
  have a: "el_data_rot (elements (start page0) ! g_group (placed (config ! 0) 0)) = None \<or>
      el_data_rot (elements (start page0) ! g_group (placed (config ! 0) 0)) = Some NaN"
    by (simp add: page0_started)
  from first_frame_rotation [OF page0_started(1-5) T a, of time_10_15_30 page0]
  show ?thesis
    using page0_started(1-5) T
    by (simp add: page0_started(9) minuteAngle_10_15_30 config_teeth)
qed

subsection \<open>Smoothing towards a constant target\<close>

lemma frames_constant_target:
  assumes "running w" and "gearsObj w = Some tr" and "train_ok tr w"
    and "g_teeth (pinion tr) = 10" and "g \<in> set (gears tr)" and "g_teeth g \<noteq> 0"
    and "stored_rotation (elements w ! g_group g) = Fin c"
    and "\<forall>now\<in>set ds. minuteAngle (getClockAngles now) = m"
  shows "\<exists>w'. frames ds w = Inr w' \<and> running w' \<and> gearsObj w' = Some tr \<and> train_ok tr w' \<and>
     stored_rotation (elements w' ! g_group g) =
       Fin (- m * (10 / real (g_teeth g)) +
            (c - (- m * (10 / real (g_teeth g)))) * 0.86 ^ length ds)"
  using assms(1,2,3,7,8)
proof (induction ds arbitrary: w c)
  case Nil
  then show ?case by simp
next
  case (Cons now rest)
  define t where "t = - m * (10 / real (g_teeth g))"
  from Cons.prems(5) have now: "minuteAngle (getClockAngles now) = m"
    and rest: "\<forall>d\<in>set rest. minuteAngle (getClockAngles d) = m"
    by simp_all
  from loop_running_all [OF Cons.prems(1-3) assms(4), of now]
  obtain w1 where w1: "loop now w = Inr w1" "running w1" "gearsObj w1 = Some tr" "train_ok tr w1"
    and rot: "el_data_rot (elements w1 ! g_group g) =
          Some (smooth (stored_rotation (elements w ! g_group g))
                  (mesh_target (Fin m) (Fin 10) (g_teeth g)))"
    using assms(5) now by auto
  have st: "stored_rotation (elements w1 ! g_group g) = Fin (c + (t - c) * 0.14)"
    using rot Cons.prems(4) assms(6)
    by (simp add: mesh_target_finite smooth_finite stored_rotation_Fin t_def)
  from Cons.IH [OF w1(2-4) st rest]
  obtain w' where w': "frames rest w1 = Inr w'" "running w'" "gearsObj w' = Some tr"
      "train_ok tr w'"
    and fin: "stored_rotation (elements w' ! g_group g) =
       Fin (t + (c + (t - c) * 0.14 - t) * 0.86 ^ length rest)"
    unfolding t_def by blast
  have "c + (t - c) * 0.14 - t = (c - t) * 0.86"
    by (simp add: field_simps)
  then have "t + (c + (t - c) * 0.14 - t) * 0.86 ^ length rest = t + (c - t) * 0.86 ^ length (now # rest)"
    by (simp add: mult.assoc)
  with w1(1) w' fin show ?case
    unfolding t_def by simp
qed

lemma power_086_40: "(0.86::real) ^ 40 * 4 < 1 / 100"
  by (simp add: power_def)

lemma distance_after_constant:
  assumes "running w" and "gearsObj w = Some tr" and "train_ok tr w"
    and "g_teeth (pinion tr) = 10" and "g \<in> set (gears tr)" and "g_teeth g \<noteq> 0"
    and "stored_rotation (elements w ! g_group g) = Fin c"
    and "\<forall>now\<in>set ds. minuteAngle (getClockAngles now) = m"
  shows "distance_after ds w (g_group g) (- m * (10 / real (g_teeth g))) =
     Some (\<bar>c - (- m * (10 / real (g_teeth g)))\<bar> * 0.86 ^ length ds)"
proof -
  define t where "t = - m * (10 / real (g_teeth g))"
  from frames_constant_target [OF assms]
  obtain w' where "frames ds w = Inr w'"
    and "stored_rotation (elements w' ! g_group g) = Fin (t + (c - t) * 0.86 ^ length ds)"
    unfolding t_def by blast
  moreover have "\<bar>(c - t) * 0.86 ^ length ds\<bar> = \<bar>c - t\<bar> * 0.86 ^ length ds"
    by (simp add: abs_mult)
  ultimately show ?thesis
    unfolding t_def [symmetric] by (simp add: distance_after_def)
qed

lemma below_epsilon_eventually:
  "\<exists>N. \<forall>n\<ge>N. (a::real) * 0.86 ^ n < 1 / 100"
proof (cases "a \<le> 0")
  case True
  have "a * 0.86 ^ n \<le> 0" for n
    using True by (simp add: mult_nonpos_nonneg)
  then have "a * 0.86 ^ n < 1 / 100" for n
    by (rule le_less_trans) simp
  then show ?thesis by blast
next
  case False
  then have a: "0 < a" by simp
  then have "0 < 1 / (100 * a)" by simp
  from real_arch_pow_inv [OF this, of "86 / 100"]
  obtain N where N: "(86 / 100 :: real) ^ N < 1 / (100 * a)" by auto
  have "a * 0.86 ^ n < 1 / 100" if "N \<le> n" for n
  proof -
    have "(86 / 100 :: real) ^ n \<le> (86 / 100) ^ N"
      using that by (intro power_decreasing) simp_all
    with N have "(86 / 100 :: real) ^ n < 1 / (100 * a)" by linarith
    with a have "a * (86 / 100) ^ n < a * (1 / (100 * a))"
      by (intro mult_strict_left_mono)
    also have "\<dots> = 1 / 100" using a by simp
    finally show ?thesis by simp
  qed
  then show ?thesis by blast
qed

lemma below_epsilon_40:
  assumes "0 \<le> a" and "a \<le> 4" and "40 \<le> n"
  shows "(a::real) * 0.86 ^ n < 1 / 100"
proof -
  have "(86 / 100 :: real) ^ n \<le> (86 / 100) ^ 40"
    using assms(3) by (intro power_decreasing) simp_all
  then have "a * (86 / 100) ^ n \<le> 4 * (86 / 100) ^ 40"
    using assms(1,2) by (intro mult_mono) simp_all
  also have "\<dots> < 1 / 100"
    using power_086_40 by simp
  finally show ?thesis by simp
qed

text \<open>
  Claim C5, as the code has it. While the minute angle, and with it a gear's
  target, stays the same from frame to frame, every frame on which the distance
  \<open>|currentRotation - target|\<close> is at least 0.01 makes it strictly smaller, by a
  factor between 0.85 and 0.87. The distance is below 0.01 after 40 frames when
  the initial distance is at most 4, and for every initial distance it is below
  0.01 from some number of frames on.
\<close>

theorem smoothing_converges:
  assumes "running w" and "gearsObj w = Some tr" and "train_ok tr w"
    and "g_teeth (pinion tr) = 10" and "g \<in> set (gears tr)" and "g_teeth g \<noteq> 0"
    and "stored_rotation (elements w ! g_group g) = Fin c"
    and "\<forall>now\<in>set (ds @ [later]). minuteAngle (getClockAngles now) = m"
  shows "let target = - m * (10 / real (g_teeth g)) in
     \<exists>d d'. distance_after ds w (g_group g) target = Some d \<and>
            distance_after (ds @ [later]) w (g_group g) target = Some d' \<and>
            (1 / 100 \<le> d \<longrightarrow> d' < d \<and> 85 / 100 * d \<le> d' \<and> d' \<le> 87 / 100 * d) \<and>
            (\<bar>c - target\<bar> \<le> 4 \<and> 40 \<le> length ds \<longrightarrow> d < 1 / 100) \<and>
            (\<exists>N. \<forall>run. N \<le> length run \<and>
                   (\<forall>now\<in>set run. minuteAngle (getClockAngles now) = m) \<longrightarrow>
                   (\<exists>e. distance_after run w (g_group g) target = Some e \<and> e < 1 / 100))"
proof -
  define t where "t = - m * (10 / real (g_teeth g))"
  define d where "d = \<bar>c - t\<bar> * 0.86 ^ length ds"
  define d' where "d' = \<bar>c - t\<bar> * 0.86 ^ length (ds @ [later])"
  from assms(8) have ds: "\<forall>now\<in>set ds. minuteAngle (getClockAngles now) = m"
    by simp
  have 1: "distance_after ds w (g_group g) t = Some d"
    unfolding t_def d_def by (rule distance_after_constant [OF assms(1-7) ds])
  have 2: "distance_after (ds @ [later]) w (g_group g) t = Some d'"
    unfolding t_def d'_def by (rule distance_after_constant [OF assms(1-8)])
  have eq: "d' = 0.86 * d"
    by (simp add: d_def d'_def)
  have 3: "1 / 100 \<le> d \<longrightarrow> d' < d \<and> 85 / 100 * d \<le> d' \<and> d' \<le> 87 / 100 * d"
    unfolding eq by simp
  have 4: "\<bar>c - t\<bar> \<le> 4 \<and> 40 \<le> length ds \<longrightarrow> d < 1 / 100"
    unfolding d_def using below_epsilon_40 [of "\<bar>c - t\<bar>" "length ds"] by simp
  from below_epsilon_eventually [of "\<bar>c - t\<bar>"]
  obtain N where N: "\<forall>n\<ge>N. \<bar>c - t\<bar> * 0.86 ^ n < 1 / 100"
    by blast
  have "\<exists>e. distance_after run w (g_group g) t = Some e \<and> e < 1 / 100"
    if "N \<le> length run" and run: "\<forall>now\<in>set run. minuteAngle (getClockAngles now) = m" for run
  proof -
    have "distance_after run w (g_group g) t = Some (\<bar>c - t\<bar> * 0.86 ^ length run)"
      unfolding t_def by (rule distance_after_constant [OF assms(1-7) run])
    with N that(1) show ?thesis by blast
  qed
  then have 5: "\<exists>N. \<forall>run. N \<le> length run \<and>
                   (\<forall>now\<in>set run. minuteAngle (getClockAngles now) = m) \<longrightarrow>
                   (\<exists>e. distance_after run w (g_group g) t = Some e \<and> e < 1 / 100)"
    by blast
  from 1 2 3 4 5 show ?thesis
    unfolding Let_def t_def [symmetric] by blast
qed

lemma fresh_g1_distance:
  "distance_after (replicate n time_10_15_30) (start page0) 0 (- (465 / 22)) =
     Some (465 / 22 * 0.86 ^ n)"
proof -
  have T: "g_teeth (placed (config ! 0) 0) \<noteq> 0"
    by (simp add: config_teeth)
  have c: "stored_rotation (elements (start page0) ! g_group (placed (config ! 0) 0)) = Fin 0"
    by (simp add: page0_started)
  have m: "\<forall>now\<in>set (replicate n time_10_15_30). minuteAngle (getClockAngles now) = 93"
    by (simp add: minuteAngle_10_15_30)
  from distance_after_constant [OF page0_started(1-5) T c m]
  show ?thesis
    by (simp add: config_teeth)
qed

text \<open>
  The theorem for gear \<open>g1\<close> of a fresh train, with every frame at 10:15:30.
\<close>

theorem smoothing_converges_witness:
  "running (start page0) \<and> gearsObj (start page0) = Some (built_train 0) \<and>
   train_ok (built_train 0) (start page0) \<and> g_teeth (pinion (built_train 0)) = 10 \<and>
   placed (config ! 0) 0 \<in> set (gears (built_train 0)) \<and>
   g_teeth (placed (config ! 0) 0) \<noteq> 0 \<and>
   stored_rotation (elements (start page0) ! g_group (placed (config ! 0) 0)) = Fin 0 \<and>
   minuteAngle (getClockAngles time_10_15_30) = 93 \<and>
   (\<exists>d d'. distance_after [time_10_15_30] (start page0) 0 (- (465 / 22)) = Some d \<and>
           distance_after [time_10_15_30, time_10_15_30] (start page0) 0 (- (465 / 22)) = Some d' \<and>
           d' < d)"
proof -
  have T: "g_teeth (placed (config ! 0) 0) \<noteq> 0"
    by (simp add: config_teeth)
  have c: "stored_rotation (elements (start page0) ! g_group (placed (config ! 0) 0)) = Fin 0"
    by (simp add: page0_started)
  have m: "\<forall>now\<in>set ([time_10_15_30] @ [time_10_15_30]). minuteAngle (getClockAngles now) = 93"
    by (simp add: minuteAngle_10_15_30)
  have d1: "distance_after [time_10_15_30] (start page0) 0 (- (465 / 22)) = Some (465 / 22 * 0.86 ^ 1)"
    using fresh_g1_distance [of 1] by simp
  from smoothing_converges [OF page0_started(1-5) T c m]
  obtain d d' where "distance_after [time_10_15_30] (start page0) 0 (- (465 / 22)) = Some d"
    and "distance_after [time_10_15_30, time_10_15_30] (start page0) 0 (- (465 / 22)) = Some d'"
    and "1 / 100 \<le> d \<longrightarrow> d' < d \<and> 85 / 100 * d \<le> d' \<and> d' \<le> 87 / 100 * d"
    by (auto simp: Let_def config_teeth)
  moreover from this(1) d1 have "1 / 100 \<le> d" by simp
  ultimately have "\<exists>d d'. distance_after [time_10_15_30] (start page0) 0 (- (465 / 22)) = Some d \<and>
           distance_after [time_10_15_30, time_10_15_30] (start page0) 0 (- (465 / 22)) = Some d' \<and>
           d' < d"
    by blast
  with page0_started(1-5) T c show ?thesis
    by (simp add: minuteAngle_10_15_30)
qed

text \<open>
  Claim C5 as stated fails on its bound of about 40 frames: on a fresh train with
  every frame at 10:15:30, gear \<open>g1\<close> starts \<open>465 / 22\<close> (about 21.1) degrees from its
  target, and after 40 frames its distance is still above 0.01.
\<close>

theorem smoothing_40_frames_counterexample:
  "distance_after (replicate 40 time_10_15_30) (start page0) 0 (- (465 / 22)) =
     Some (465 / 22 * 0.86 ^ 40) \<and>
   1 / 100 < (465 / 22 * 0.86 ^ 40 :: real)"
proof
  show "distance_after (replicate 40 time_10_15_30) (start page0) 0 (- (465 / 22)) =
     Some (465 / 22 * 0.86 ^ 40)"
    by (rule fresh_g1_distance)
  show "1 / 100 < (465 / 22 * 0.86 ^ 40 :: real)"
    by (simp add: power_def)
qed

subsection \<open>Tooth counts of zero\<close>

lemma is_finite_iff: "is_finite v \<longleftrightarrow> (\<exists>x. v = Fin x)"
  by (cases v) (simp_all add: is_finite_def)

lemma stored_rotation_finite:
  "(case el_data_rot e of None \<Rightarrow> True | Some v \<Rightarrow> is_finite v) \<Longrightarrow>
   \<exists>c. stored_rotation e = Fin c"
  by (auto simp: is_finite_iff stored_rotation_absent stored_rotation_Fin split: option.splits)

lemma loop_finite:
  assumes "gearsObj w = Some tr" and "train_ok tr w" and "g_teeth (pinion tr) = 10"
    and "list_all (\<lambda>g. g_teeth g \<noteq> 0) (gears tr)" and "finite_rotations tr w"
  shows "\<exists>w'. loop now w = Inr w' \<and> gearsObj w' = Some tr \<and> train_ok tr w' \<and>
     finite_rotations tr w' \<and> running w' = running w"
proof (cases "running w")
  case False
  with assms show ?thesis
    by (simp add: loop_paused train_ok_def finite_rotations_def)
next
  case True
  define w' where "w' = forEach_gear (Fin (minuteAngle (getClockAngles now)))
            (js_or (Fin (real (g_teeth (pinion tr)))) (Fin 10)) (gears tr)
            (update_element (g_group (pinion tr))
               (\<lambda>e. e\<lparr>el_transform := Some (TranslateRotate (g_cx (pinion tr)) (g_cy (pinion tr))
                         (Fin (minuteAngle (getClockAngles now))))\<rparr>)
               (w\<lparr>minuteGroup := Some (Rotate (Fin (minuteAngle (getClockAngles now)))),
                  hourGroup := Some (Rotate (Fin (hourAngle (getClockAngles now))))\<rparr>))"
  have step: "loop now w = Inr w'"
    unfolding w'_def by (rule loop_running [OF True assms(1)])
  have basic: "gearsObj w' = Some tr" "train_ok tr w'" "running w' = running w"
    using assms(1,2) by (simp_all add: w'_def train_ok_def)
  have "case el_data_rot (elements w' ! g_group g) of None \<Rightarrow> True | Some v \<Rightarrow> is_finite v"
    if g: "g \<in> set (gears tr)" for g
  proof -
    from assms(5) g obtain c where c: "stored_rotation (elements w ! g_group g) = Fin c"
      by (auto simp: finite_rotations_def list_all_iff dest!: stored_rotation_finite)
    from assms(4) g have T: "g_teeth g \<noteq> 0"
      by (auto simp: list_all_iff)
    from loop_running_gear [OF True assms(1,2) g, of now] step
    have "el_data_rot (elements w' ! g_group g) =
        Some (smooth (stored_rotation (elements w ! g_group g))
             (mesh_target (Fin (minuteAngle (getClockAngles now))) (Fin 10) (g_teeth g)))"
      by (auto simp: assms(3) js_or_def)
    then show ?thesis
      by (simp add: c mesh_target_finite [OF T] smooth_finite is_finite_def)
  qed
  then have "finite_rotations tr w'"
    by (simp add: finite_rotations_def list_all_iff)
  with step basic show ?thesis by blast
qed

lemma frames_finite:
  assumes "gearsObj w = Some tr" and "train_ok tr w" and "g_teeth (pinion tr) = 10"
    and "list_all (\<lambda>g. g_teeth g \<noteq> 0) (gears tr)" and "finite_rotations tr w"
  shows "\<exists>w'. frames ds w = Inr w' \<and> gearsObj w' = Some tr \<and> train_ok tr w' \<and>
     finite_rotations tr w' \<and> running w' = running w"
  using assms
proof (induction ds arbitrary: w)
  case Nil
  then show ?case by simp
next
  case (Cons now rest)
  from loop_finite [OF Cons.prems, of now] obtain w1 where
    w1: "loop now w = Inr w1" "gearsObj w1 = Some tr" "train_ok tr w1"
      "finite_rotations tr w1" "running w1 = running w"
    by blast
  from Cons.IH [OF w1(2,3) Cons.prems(3,4) w1(4)] w1(1,5) show ?case
    by auto
qed

lemma start_finite: "finite_rotations (built_train (length (elements w))) (start w)"
  by (simp add: finite_rotations_def list_all_iff start_fresh)

lemma built_train_teeth_nonzero: "list_all (\<lambda>g. g_teeth g \<noteq> 0) (gears (built_train n))"
  by (simp add: built_train_def placed_def config_def)

text \<open>
  Claim C6, as the code has it. The script has no guard and no error report for a
  tooth count of zero. The table written in \<open>buildGears\<close> has the tooth counts 44, 22
  and 14, and the pinion has 10, so on the train that \<open>start\<close> builds no frame
  divides by zero: after any run of frames every gear's stored rotation is absent
  or finite.
\<close>

theorem built_train_rotations_finite:
  "map g_teeth (gears (fst (buildGears w))) = [44, 22, 14] \<and>
   g_teeth (pinion (fst (buildGears w))) = 10 \<and>
   (\<exists>w'. frames ds (start w) = Inr w' \<and> gearsObj w' = Some (fst (buildGears w)) \<and>
      (\<forall>g\<in>set (gears (fst (buildGears w))).
         g_teeth g \<noteq> 0 \<and>
         (el_data_rot (elements w' ! g_group g) = None \<or>
          (\<exists>x. el_data_rot (elements w' ! g_group g) = Some (Fin x)))))"
proof -
  define tr where "tr = built_train (length (elements w))"
  from frames_finite [of "start w" tr ds]
  obtain w' where w': "frames ds (start w) = Inr w'" "gearsObj w' = Some tr"
    "finite_rotations tr w'"
    using built_train_ok [of w] built_train_teeth(2) built_train_teeth_nonzero start_finite [of w]
    by (auto simp: tr_def)
  have "g_teeth g \<noteq> 0 \<and>
         (el_data_rot (elements w' ! g_group g) = None \<or>
          (\<exists>x. el_data_rot (elements w' ! g_group g) = Some (Fin x)))"
    if g: "g \<in> set (gears tr)" for g
  proof -
    from g built_train_teeth_nonzero [of "length (elements w)"] have "g_teeth g \<noteq> 0"
      by (simp add: list_all_iff tr_def)
    moreover from g w'(3)
    have "case el_data_rot (elements w' ! g_group g) of None \<Rightarrow> True | Some v \<Rightarrow> is_finite v"
      by (simp add: finite_rotations_def list_all_iff)
    then have "el_data_rot (elements w' ! g_group g) = None \<or>
          (\<exists>x. el_data_rot (elements w' ! g_group g) = Some (Fin x))"
      by (cases "el_data_rot (elements w' ! g_group g)") (simp_all add: is_finite_iff)
    ultimately show ?thesis by blast
  qed
  with w'(1,2) show ?thesis
    unfolding fst_buildGears tr_def [symmetric]
    by (auto simp: tr_def built_train_teeth)
qed

text \<open>
  The theorem for two frames at 10:15:30 on a fresh page.
\<close>

theorem built_train_rotations_finite_witness:
  "\<exists>w'. frames [time_10_15_30, time_10_15_30] (start page0) = Inr w' \<and>
      gearsObj w' = Some (fst (buildGears page0)) \<and>
      (\<forall>g\<in>set (gears (fst (buildGears page0))).
         g_teeth g \<noteq> 0 \<and>
         (el_data_rot (elements w' ! g_group g) = None \<or>
          (\<exists>x. el_data_rot (elements w' ! g_group g) = Some (Fin x))))"
  using built_train_rotations_finite [of page0 "[time_10_15_30, time_10_15_30]"] by blast

text \<open>
  Claim C6 as stated fails: with a table row of zero teeth the body of
  \<open>buildGears\<close> builds the train all the same, the first frame stores \<open>-Infinity\<close>
  and the second stores \<open>NaN\<close>, and neither frame throws.
\<close>

theorem zero_teeth_counterexample:
  "map g_teeth (gears (fst (buildGears_from zero_config page0))) = [0] \<and>
   rotation_after [time_10_15_30] (start_from zero_config page0) 0 = Inr (Some NegInf) \<and>
   rotation_after [time_10_15_30, time_10_15_30] (start_from zero_config page0) 0 = Inr (Some NaN)"
proof -
  define w0 where "w0 = start_from zero_config page0"
  define g where "g = placed (zero_config ! 0) 0"
  define tr where "tr = \<lparr>gears = [g],
      pinion = \<lparr>g_group = 1, g_teeth = 10, g_r = 8, g_outer = 12, g_cx = 0, g_cy = 0\<rparr>\<rparr>"
  have tr: "fst (buildGears_from zero_config page0) = tr"
    by (simp add: buildGears_from_result tr_def g_def zero_config_def page0_def Let_def)
  have run: "running w0"
    by (simp add: w0_def start_from_result) (simp add: page0_def)
  have obj: "gearsObj w0 = Some tr"
    by (simp add: w0_def start_from_result tr)
  have len: "length (elements w0) = 2"
    by (simp add: w0_def start_from_result) (simp add: page0_def zero_config_def)
  have ok: "train_ok tr w0"
    by (simp add: train_ok_def len) (simp add: tr_def g_def placed_def)
  have pt: "g_teeth (pinion tr) = 10"
    by (simp add: tr_def)
  note w0 = run obj ok pt
  have g: "g \<in> set (gears tr)" "g_group g = 0" "g_teeth g = 0"
    by (simp_all add: tr_def g_def placed_def zero_config_def)
  have cur0: "stored_rotation (elements w0 ! 0) = Fin 0"
    by (simp add: w0_def start_from_result page0_def zero_config_def gear_element_def
        stored_rotation_absent)
  have tgt: "mesh_target (Fin 93) (Fin 10) 0 = NegInf"
    by (simp add: mesh_target_def signed_inf_def)
  from loop_running_all [OF w0, of time_10_15_30]
  obtain w1 where w1: "loop time_10_15_30 w0 = Inr w1" "running w1" "gearsObj w1 = Some tr"
      "train_ok tr w1"
    and r1: "el_data_rot (elements w1 ! 0) = Some (smooth (Fin 0) NegInf)"
    using g by (auto simp: minuteAngle_10_15_30 cur0 tgt)
  have s1: "smooth (Fin 0) NegInf = NegInf"
    by (simp add: smooth_def jsub_def signed_inf_def)
  have cur1: "stored_rotation (elements w1 ! 0) = NegInf"
    using r1 by (simp add: s1 stored_rotation_def js_or_def)
  from loop_running_all [OF w1(2-4) w0(4), of time_10_15_30]
  obtain w2 where w2: "loop time_10_15_30 w1 = Inr w2"
    and r2: "el_data_rot (elements w2 ! 0) = Some (smooth NegInf NegInf)"
    using g by (auto simp: minuteAngle_10_15_30 cur1 tgt)
  have s2: "smooth NegInf NegInf = NaN"
    by (simp add: smooth_def jsub_def)
  from w1(1) r1 w2 r2 show ?thesis
    by (simp add: rotation_after_def w0_def [symmetric] s1 s2 tr)
       (simp add: tr_def g)
qed

subsection \<open>Signs of the rotations\<close>

text \<open>
  Claim C7 as stated fails: on the first frame after \<open>start\<close>, at 10:15:30, the
  pinion is at 93 degrees and the gears \<open>g1\<close> and \<open>g2\<close> are both at negative
  angles, so their signs are equal.
\<close>

theorem gears_same_sign_counterexample:
  "rotation_after [time_10_15_30] (start page0) 0 = Inr (Some (Fin (- (651 / 220)))) \<and>
   rotation_after [time_10_15_30] (start page0) 1 = Inr (Some (Fin (- (651 / 110)))) \<and>
   sgn (- (651 / 220) :: real) = sgn (- (651 / 110) :: real) \<and>
   minuteAngle (getClockAngles time_10_15_30) \<noteq> 0"
proof -
  have r: "running page0" and e: "length (elements page0) = 0"
    by (simp_all add: page0_def)
  from rotation_after_first_frame [OF r, of 0 time_10_15_30]
  have "rotation_after [time_10_15_30] (start page0) 0 = Inr (Some (Fin (- (651 / 220))))"
    by (simp add: e minuteAngle_10_15_30 config_def)
  moreover from rotation_after_first_frame [OF r, of 1 time_10_15_30]
  have "rotation_after [time_10_15_30] (start page0) 1 = Inr (Some (Fin (- (651 / 110))))"
    by (simp add: e minuteAngle_10_15_30 config_def)
  ultimately show ?thesis
    by (simp add: minuteAngle_10_15_30)
qed

text \<open>
  Claim C7, as the code has it. On a Running frame with a non-zero minute angle,
  a visible gear whose rotation read back is zero or negative is turned to a
  negative angle, opposite in sign to the pinion's rotation; two such gears
  therefore have the same sign.
\<close>

theorem gear_sign_opposite_to_pinion:
  assumes "running w" and "gearsObj w = Some tr" and "train_ok tr w"
    and "g_teeth (pinion tr) = 10"
    and "g1 \<in> set (gears tr)" and "g_teeth g1 \<noteq> 0"
    and "stored_rotation (elements w ! g_group g1) = Fin c1" and "c1 \<le> 0"
    and "g2 \<in> set (gears tr)" and "g_teeth g2 \<noteq> 0"
    and "stored_rotation (elements w ! g_group g2) = Fin c2" and "c2 \<le> 0"
    and "minuteAngle (getClockAngles now) \<noteq> 0"
  shows "\<exists>w' R1 R2.
     loop now w = Inr w' \<and>
     el_transform (elements w' ! g_group (pinion tr)) =
       Some (TranslateRotate (g_cx (pinion tr)) (g_cy (pinion tr))
              (Fin (minuteAngle (getClockAngles now)))) \<and>
     el_data_rot (elements w' ! g_group g1) = Some (Fin R1) \<and>
     el_data_rot (elements w' ! g_group g2) = Some (Fin R2) \<and>
     sgn R1 = - sgn (minuteAngle (getClockAngles now)) \<and>
     sgn R2 = - sgn (minuteAngle (getClockAngles now)) \<and>
     sgn R1 = sgn R2"
proof -
  define m where "m = minuteAngle (getClockAngles now)"
  have m: "0 < m"
    using minuteAngle_nonneg [of now] assms(13) by (simp add: m_def)
  have neg: "c + (- m * (10 / real T) - c) * 0.14 < 0" if "T \<noteq> 0" "c \<le> 0" for T :: nat and c :: real
  proof -
    have "0 < m * (10 / real T)" using m that(1) by simp
    then have "- m * (10 / real T) * 0.14 < 0" by simp
    moreover have "c * 0.86 \<le> 0" using that(2) by simp
    moreover have "c + (- m * (10 / real T) - c) * 0.14 = c * 0.86 + - m * (10 / real T) * 0.14"
      by (simp add: algebra_simps)
    ultimately show ?thesis by linarith
  qed
  from loop_running_all [OF assms(1-4), of now]
  obtain w' where w': "loop now w = Inr w'"
    and pin: "el_transform (elements w' ! g_group (pinion tr)) =
       Some (TranslateRotate (g_cx (pinion tr)) (g_cy (pinion tr)) (Fin m))"
    and all: "\<forall>g\<in>set (gears tr).
        el_data_rot (elements w' ! g_group g) =
          Some (smooth (stored_rotation (elements w ! g_group g))
                  (mesh_target (Fin m) (Fin 10) (g_teeth g))) \<and>
        el_transform (elements w' ! g_group g) =
          Some (TranslateRotate (g_cx g) (g_cy g)
                 (smooth (stored_rotation (elements w ! g_group g))
                    (mesh_target (Fin m) (Fin 10) (g_teeth g))))"
    unfolding m_def by blast
  define R1 where "R1 = c1 + (- m * (10 / real (g_teeth g1)) - c1) * 0.14"
  define R2 where "R2 = c2 + (- m * (10 / real (g_teeth g2)) - c2) * 0.14"
  have d1: "el_data_rot (elements w' ! g_group g1) = Some (Fin R1)"
    using bspec [OF all assms(5)] assms(6,7)
    by (simp add: mesh_target_finite smooth_finite R1_def)
  have d2: "el_data_rot (elements w' ! g_group g2) = Some (Fin R2)"
    using bspec [OF all assms(9)] assms(10,11)
    by (simp add: mesh_target_finite smooth_finite R2_def)
  have "R1 < 0" "R2 < 0"
    unfolding R1_def R2_def using neg assms(6,8,10,12) by blast+
  with m have "sgn R1 = - sgn m" "sgn R2 = - sgn m" "sgn R1 = sgn R2"
    by simp_all
  with w' pin d1 d2 show ?thesis
    unfolding m_def by blast
qed

text \<open>
  The theorem for the gears \<open>g1\<close> and \<open>g2\<close> of a fresh train at 10:15:30.
\<close>

theorem gear_sign_opposite_to_pinion_witness:
  "running (start page0) \<and> gearsObj (start page0) = Some (built_train 0) \<and>
   train_ok (built_train 0) (start page0) \<and> g_teeth (pinion (built_train 0)) = 10 \<and>
   placed (config ! 0) 0 \<in> set (gears (built_train 0)) \<and> g_teeth (placed (config ! 0) 0) \<noteq> 0 \<and>
   stored_rotation (elements (start page0) ! g_group (placed (config ! 0) 0)) = Fin 0 \<and>
   placed (config ! 1) 1 \<in> set (gears (built_train 0)) \<and> g_teeth (placed (config ! 1) 1) \<noteq> 0 \<and>
   stored_rotation (elements (start page0) ! g_group (placed (config ! 1) 1)) = Fin 0 \<and>
   (0::real) \<le> 0 \<and> minuteAngle (getClockAngles time_10_15_30) \<noteq> 0 \<and>
   (\<exists>w' R1 R2. loop time_10_15_30 (start page0) = Inr w' \<and>
      el_data_rot (elements w' ! 0) = Some (Fin R1) \<and>
      el_data_rot (elements w' ! 1) = Some (Fin R2) \<and>
      sgn R1 = - 1 \<and> sgn R2 = - 1)"
proof -
  have T1: "g_teeth (placed (config ! 0) 0) \<noteq> 0" and T2: "g_teeth (placed (config ! 1) 1) \<noteq> 0"
    by (simp_all add: config_def)
  have c1: "stored_rotation (elements (start page0) ! g_group (placed (config ! 0) 0)) = Fin 0"
    and c2: "stored_rotation (elements (start page0) ! g_group (placed (config ! 1) 1)) = Fin 0"
    using page0_started(7,8) by simp_all
  have z: "(0::real) \<le> 0" by simp
  have m: "minuteAngle (getClockAngles time_10_15_30) \<noteq> 0"
    by (simp add: minuteAngle_10_15_30)
  from gear_sign_opposite_to_pinion
    [OF page0_started(1-5) T1 c1 z page0_started(6) T2 c2 z m]
  show ?thesis
    using page0_started(1-6) T1 T2 c1 c2 m
    by (simp add: minuteAngle_10_15_30) blast
qed

subsection \<open>Building twice\<close>

text \<open>
  Claim C8. A second call of \<open>buildGears\<close> returns a train with the same
  placements and tooth counts as the first; the container then holds exactly the
  four new groups, none of the first call's groups, with the same content as
  after the first call and no stored rotation. The placements do not depend on
  the page the builder is called on.
\<close>

theorem buildGears_idempotent:
  "(case buildGears w of
      (t1, w1) \<Rightarrow>
        (case buildGears w1 of
           (t2, w2) \<Rightarrow>
             placements t2 = placements t1 \<and>
             placements t1 = [(- 28, 30, 44), (64, 20, 22), (38, - 82, 14), (0, 0, 10)] \<and>
             gearContainer w2 = map g_group (gears t2 @ [pinion t2]) \<and>
             set (gearContainer w2) \<inter> set (gearContainer w1) = {} \<and>
             map (\<lambda>a. elements w2 ! a) (gearContainer w2) =
               map (\<lambda>a. elements w1 ! a) (gearContainer w1) \<and>
             (\<forall>a\<in>set (gearContainer w2). el_data_rot (elements w2 ! a) = None))) \<and>
   placements (fst (buildGears v)) = placements (fst (buildGears w))"
  by (simp add: buildGears_result Let_def placements_def placed_def config_def nth_append
      gear_element_def pinion_element_def)

text \<open>
  The theorem on a fresh page.
\<close>

theorem buildGears_idempotent_witness:
  "(case buildGears page0 of
      (t1, w1) \<Rightarrow>
        (case buildGears w1 of
           (t2, w2) \<Rightarrow>
             placements t2 = placements t1 \<and>
             placements t1 = [(- 28, 30, 44), (64, 20, 22), (38, - 82, 14), (0, 0, 10)] \<and>
             gearContainer w2 = [4, 5, 6, 7] \<and> gearContainer w1 = [0, 1, 2, 3] \<and>
             (\<forall>a\<in>set (gearContainer w2). el_data_rot (elements w2 ! a) = None)))"
  using buildGears_idempotent [of page0 page0]
  by (simp add: buildGears_result Let_def page0_def placed_def config_def split: prod.splits)

end
